theory Spec2Isabelle
  imports Main "HOL-Library.Word" "HOL-Library.Sublist"
begin

chapter \<open>Google Workspace tool server: credential lifecycle, callback listener, Gmail helpers\<close>

text \<open>
  A shallow embedding of the OAuth2 service (class \<open>GAuthService\<close>), of the server
  (classes \<open>OAuthServer\<close> and \<open>GoogleWorkspaceServer\<close>) and of four Gmail helpers
  (\<open>decodeBase64Data\<close>, \<open>bulkGetEmails\<close>, \<open>bulkSaveAttachments\<close>, \<open>bulkArchive\<close>).

  Conventions.
  \<^item> The single \<open>OAuth2Client\<close> object, the files on disk and everything the server does to
    the outside (authorization URLs generated, browser launches, listeners bound, files
    written, lines of the server's \<open>logger\<close>) form one record \<open>World\<close>, passed through
    every operation and returned updated.
  \<^item> A \<open>throw\<close> is the value \<open>Inl e\<close>; the world reached when the exception is raised is
    returned with it, because effects made before a \<open>throw\<close> stay made.
  \<^item> What Google's servers, the file system and the process environment answer is a
    parameter, the record \<open>Env\<close>; it may differ from one call to the next.
  \<^item> Library calls are modelled by what they return: \<open>generateAuthUrl\<close> by the record of
    the query parameters of the URL it builds, \<open>url.parse\<close> and \<open>querystring.parse\<close> by
    the parsed request, \<open>JSON.stringify\<close>/\<open>JSON.parse\<close> of a credentials file by the
    credentials themselves.
  \<^item> The diagnostics that the service writes with \<open>console.error\<close> and \<open>console.warn\<close>
    are not part of the model.
  \<^item> What ends the process is recorded in the world; a process that has ended handles
    no further tool call and no further HTTP request.
  \<^item> Events are handled one after the other: a tool call or an HTTP request is handled to
    its end before the next one arrives.
\<close>

section \<open>Attachment data: \<open>decodeBase64Data\<close>\<close>

type_synonym byte = "8 word"

text \<open>The alphabets of RFC 4648, section 4 (standard) and section 5 (URL-safe).\<close>

definition b64_alphabet :: string where
  "b64_alphabet = ''ABCDEFGHIJKLMNOPQRSTUVWXYZabcdefghijklmnopqrstuvwxyz0123456789+/''"

definition b64url_alphabet :: string where
  "b64url_alphabet = ''ABCDEFGHIJKLMNOPQRSTUVWXYZabcdefghijklmnopqrstuvwxyz0123456789-_''"

text \<open>
  Bytes to 6-bit groups, three bytes at a time; a final group of one or two bytes gives
  two or three 6-bit values, the unused low bits being zero.
\<close>

fun sextets :: "byte list \<Rightarrow> nat list" where
  "sextets (a # b # c # rest) =
     [unat a div 4, (unat a mod 4) * 16 + unat b div 16,
      (unat b mod 16) * 4 + unat c div 64, unat c mod 64] @ sextets rest"
| "sextets [a, b] = [unat a div 4, (unat a mod 4) * 16 + unat b div 16, (unat b mod 16) * 4]"
| "sextets [a] = [unat a div 4, (unat a mod 4) * 16]"
| "sextets [] = []"

text \<open>
  The base64url encoding of a byte sequence, as the Gmail API delivers attachment data:
  without padding, and with the \<open>=\<close> padding of RFC 4648.
\<close>

definition base64url_encode :: "byte list \<Rightarrow> string" where
  "base64url_encode bs = map (\<lambda>n. b64url_alphabet ! n) (sextets bs)"

definition base64url_encode_padded :: "byte list \<Rightarrow> string" where
  "base64url_encode_padded bs =
     base64url_encode bs @ replicate ((3 - length bs mod 3) mod 3) CHR ''=''"

text \<open>6-bit groups back to bytes; a lone trailing group carries no byte.\<close>

fun unsextets :: "nat list \<Rightarrow> byte list" where
  "unsextets (p # q # r # s # rest) =
     [word_of_nat (p * 4 + q div 16), word_of_nat ((q mod 16) * 16 + r div 4),
      word_of_nat ((r mod 4) * 64 + s)] @ unsextets rest"
| "unsextets [p, q, r] = [word_of_nat (p * 4 + q div 16), word_of_nat ((q mod 16) * 16 + r div 4)]"
| "unsextets [p, q] = [word_of_nat (p * 4 + q div 16)]"
| "unsextets [p] = []"
| "unsextets [] = []"

fun index_in :: "'a list \<Rightarrow> 'a \<Rightarrow> nat option" where
  "index_in [] c = None"
| "index_in (x # xs) c = (if x = c then Some 0 else map_option Suc (index_in xs c))"

text \<open>
  \<open>Buffer.from(s, 'base64')\<close> of Node.js: decoding stops at the first \<open>=\<close>, characters
  outside the alphabet are skipped. Only the standard alphabet is decoded here, so the
  two replacements of \<open>decodeBase64Data\<close> are what makes URL-safe input readable.
\<close>

definition Buffer_from_base64 :: "string \<Rightarrow> byte list" where
  "Buffer_from_base64 s =
     unsextets (List.map_filter (index_in b64_alphabet) (takeWhile (\<lambda>c. c \<noteq> CHR ''='') s))"

text \<open>\<open>s.replace(/x/g, y)\<close> for a one-character pattern.\<close>

definition replace_char :: "char \<Rightarrow> char \<Rightarrow> string \<Rightarrow> string" where
  "replace_char x y s = map (\<lambda>c. if c = x then y else c) s"

definition decodeBase64Data :: "string \<Rightarrow> byte list" where
  "decodeBase64Data fileData =
     (let standardBase64Data =
            replace_char CHR ''_'' CHR ''/'' (replace_char CHR ''-'' CHR ''+'' fileData);
          padding = replicate ((4 - length standardBase64Data mod 4) mod 4) CHR ''=''
      in Buffer_from_base64 (standardBase64Data @ padding))"

text \<open>What the two replacements do to one character, and to the character of a 6-bit value.\<close>

definition std_char :: "char \<Rightarrow> char" where
  "std_char c =
     (let d = (if c = CHR ''-'' then CHR ''+'' else c) in if d = CHR ''_'' then CHR ''/'' else d)"

definition url_std_char :: "nat \<Rightarrow> char" where
  "url_std_char n = std_char (b64url_alphabet ! n)"

section \<open>The OAuth2 service\<close>

subsection \<open>Data\<close>

text \<open>
  \<open>Credentials\<close> of google-auth-library: every member is optional. \<open>scope\<close> holds the
  granted scopes, one string each.
\<close>

record Credentials =
  access_token :: "string option"
  refresh_token :: "string option"
  expiry_date :: "int option"
  scope :: "string list"

definition no_credentials :: Credentials where
  "no_credentials = \<lparr>access_token = None, refresh_token = None, expiry_date = None, scope = []\<rparr>"

text \<open>JavaScript truthiness of an optional string: \<open>undefined\<close>, \<open>null\<close> and \<open>''\<close> are falsy.\<close>

definition truthy :: "string option \<Rightarrow> bool" where
  "truthy v = (case v of None \<Rightarrow> False | Some s \<Rightarrow> s \<noteq> [])"

record OAuth2Client =
  clientId :: string
  clientSecret :: string
  redirectUri :: string
  credentials :: Credentials

record AccountInfo =
  email :: string
  accountType :: string
  extraInfo :: string

text \<open>The query parameters of an authorization URL built by \<open>generateAuthUrl\<close>.\<close>

record AuthUrl =
  response_type :: string
  url_client_id :: string
  redirect_uri :: string
  access_type :: string
  url_scope :: "string list"
  url_state :: string
  prompt :: string
  login_hint :: string

text \<open>
  The error classes. \<open>CodeExchangeError\<close> is constructed with the URL \<open>''\<close> (here \<open>None\<close>)
  and receives its URL later; \<open>Error m\<close> is any other \<open>Error\<close> with message \<open>m\<close>, among
  them those raised by the libraries.
\<close>

datatype Err =
    Error string
  | CodeExchangeError "AuthUrl option"
  | NoRefreshTokenError AuthUrl
  | NoUserIdError

fun message :: "Err \<Rightarrow> string" where
  "message (Error m) = m"
| "message (CodeExchangeError u) = ''Error getting credentials''"
| "message (NoRefreshTokenError u) = ''Error getting credentials''"
| "message NoUserIdError = ''''"

text \<open>The gauth file after \<open>readFile\<close> and \<open>JSON.parse\<close>.\<close>

datatype GauthFile =
    GauthUnreadable string
  | GauthNoInstalled
  | GauthInstalled string string

text \<open>The value of one query parameter as \<open>querystring.parse\<close> returns it.\<close>

datatype qvalue = QString string | QArray "string list"

fun qtruthy :: "qvalue \<Rightarrow> bool" where
  "qtruthy (QString s) = (s \<noteq> [])"
| "qtruthy (QArray ss) = True"

record Userinfo =
  info_id :: "string option"
  info_email :: string

datatype UserinfoReply = ApiFailure string | Data Userinfo

text \<open>The lines the server writes through its \<open>logger\<close>, one constructor per call site.\<close>

datatype LogLine =
    FlowStarting string AuthUrl
  | LaunchFailed AuthUrl
  | CallbackListening nat
  | MissingScopes
  | CredentialsExpired
  | FoundCredentials string
  | NoCredentials string
  | SetupFailed Err
  | ToolFailed string string
  | ServerError Err
  | FatalError Err

text \<open>
  What ends the process: a promise rejected with nothing to handle the rejection, an
  \<open>'error'\<close> event emitted with no listener for it (by a server that cannot bind its
  port, by a child process that cannot be started), and \<open>process.exit\<close>. The sources
  register no handler for \<open>unhandledRejection\<close> or \<open>uncaughtException\<close> and no \<open>'error'\<close>
  listener, and the runtime required (Node 18 or later) ends the process on each of these.
\<close>

datatype Fatal =
    UnhandledRejection Err
  | ListenFailed nat
  | SpawnFailed string
  | Exit nat

text \<open>
  \<open>credentialFiles\<close> maps a user id to the parsed content of the file
  \<open>.oauth2.<userId>.json\<close> in the credentials directory (\<open>None\<close>: no file, or not JSON);
  \<open>accountsFile\<close> is the array \<open>accounts\<close> of the accounts file (\<open>None\<close>: unreadable, not
  JSON, or not an array). \<open>listening\<close> holds the port of every callback listener that is
  bound and not closed. \<open>fatal\<close> holds what has happened that ends the process. The runtime
  raises it once the code running has come to its next wait for the outside, so the
  operations below are modelled up to there, and a process that is no longer \<open>alive\<close>
  handles no further event.
\<close>

record World =
  oauth2Client :: "OAuth2Client option"
  gauthFile :: GauthFile
  accountsFile :: "AccountInfo list option"
  credentialFiles :: "string \<Rightarrow> Credentials option"
  fileWrites :: "(string \<times> Credentials) list"
  authUrls :: "AuthUrl list"
  spawned :: "(string \<times> string list \<times> AuthUrl) list"
  listening :: "nat list"
  logged :: "LogLine list"
  fatal :: "Fatal list"

definition alive :: "World \<Rightarrow> bool" where
  "alive w = (fatal w = [])"

text \<open>
  \<open>getToken\<close>: the token endpoint's answer to an authorization code (\<open>None\<close>: rejected).
  \<open>userinfo_get\<close>: the answer of the user-info endpoint for a client holding the given
  credentials, and the credentials the client holds afterwards (the library may have
  refreshed the access token). \<open>fs_write_error\<close>: the message of the error with which
  writing a user's credentials file fails, if it fails. \<open>spawn_throws\<close>: the call of
  \<open>spawn\<close> throws; \<open>spawn_fails\<close>: the call returns, but the command cannot be started and
  the child process emits \<open>'error'\<close>. \<open>port_in_use\<close>: the ports on which another process
  is listening.
\<close>

record Env =
  getToken :: "qvalue \<Rightarrow> Credentials option"
  userinfo_get :: "Credentials \<Rightarrow> UserinfoReply \<times> Credentials"
  fs_write_error :: "string \<Rightarrow> string option"
  platform :: string
  BROWSER :: string
  spawn_throws :: bool
  spawn_fails :: bool
  port_in_use :: "nat \<Rightarrow> bool"
  now :: int

subsection \<open>Constants\<close>

definition REDIRECT_URI :: string where
  "REDIRECT_URI = ''http://localhost:4100/code''"

definition SCOPES :: "string list" where
  "SCOPES = [''openid'',
             ''https://www.googleapis.com/auth/userinfo.email'',
             ''https://mail.google.com/'',
             ''https://www.googleapis.com/auth/calendar'']"

definition not_initialized :: string where
  "not_initialized = ''OAuth2 client not initialized. Call initialize() first.''"

subsection \<open>Operations of \<open>GAuthService\<close>\<close>

definition initialize :: "World \<Rightarrow> (Err + unit) \<times> World" where
  "initialize w =
     (case gauthFile w of
        GauthUnreadable m \<Rightarrow> (Inl (Error (''Failed to initialize OAuth2 client: '' @ m)), w)
      | GauthNoInstalled \<Rightarrow>
          (Inl (Error (''Failed to initialize OAuth2 client: '' @
                       ''Invalid OAuth2 credentials format in gauth file'')), w)
      | GauthInstalled client_id client_secret \<Rightarrow>
          (Inr (), w\<lparr>oauth2Client :=
             Some \<lparr>clientId = client_id, clientSecret = client_secret,
                   redirectUri = REDIRECT_URI, credentials = no_credentials\<rparr>\<rparr>))"

definition getAccountInfo :: "World \<Rightarrow> AccountInfo list" where
  "getAccountInfo w = (case accountsFile w of None \<Rightarrow> [] | Some accounts \<Rightarrow> accounts)"

text \<open>
  The client returned is the service's one client object, whose credentials have just
  been replaced; \<open>None\<close> is \<open>null\<close>.
\<close>

definition getStoredCredentials :: "string \<Rightarrow> World \<Rightarrow> OAuth2Client option \<times> World" where
  "getStoredCredentials userId w =
     (case oauth2Client w of
        None \<Rightarrow> (None, w)
      | Some client \<Rightarrow>
          (case credentialFiles w userId of
             None \<Rightarrow> (None, w)
           | Some creds \<Rightarrow>
               (let client' = client\<lparr>credentials := creds\<rparr>
                in (Some client', w\<lparr>oauth2Client := Some client'\<rparr>))))"

definition storeCredentials :: "Env \<Rightarrow> OAuth2Client \<Rightarrow> string \<Rightarrow> World \<Rightarrow> (Err + unit) \<times> World" where
  "storeCredentials env client userId w =
     (case fs_write_error env userId of
        Some m \<Rightarrow> (Inl (Error m), w)
      | None \<Rightarrow>
          (Inr (), w\<lparr>credentialFiles := (credentialFiles w)(userId \<mapsto> credentials client),
                     fileWrites := fileWrites w @ [(userId, credentials client)]\<rparr>))"

definition exchangeCode :: "Env \<Rightarrow> qvalue \<Rightarrow> World \<Rightarrow> (Err + OAuth2Client) \<times> World" where
  "exchangeCode env authorizationCode w =
     (case oauth2Client w of
        None \<Rightarrow> (Inl (Error not_initialized), w)
      | Some client \<Rightarrow>
          (case getToken env authorizationCode of
             None \<Rightarrow> (Inl (CodeExchangeError None), w)
           | Some tokens \<Rightarrow>
               (let client' = client\<lparr>credentials := tokens\<rparr>
                in (Inr client', w\<lparr>oauth2Client := Some client'\<rparr>))))"

text \<open>
  \<open>getUserInfo\<close> works on the client it is given, which is always the service's client;
  the caller writes the client back into the world.
\<close>

definition getUserInfo :: "Env \<Rightarrow> OAuth2Client \<Rightarrow> (Err + Userinfo) \<times> OAuth2Client" where
  "getUserInfo env client =
     (case userinfo_get env (credentials client) of
        (reply, creds') \<Rightarrow>
          (let client' = client\<lparr>credentials := creds'\<rparr>
           in case reply of
                ApiFailure m \<Rightarrow> (Inl (Error m), client')
              | Data d \<Rightarrow> if truthy (info_id d) then (Inr d, client') else (Inl NoUserIdError, client')))"

text \<open>
  \<open>generateAuthUrl\<close> of the library: the client supplies its id and its redirect URI, the
  response type is \<open>code\<close>.
\<close>

definition generateAuthUrl ::
  "OAuth2Client \<Rightarrow> string \<Rightarrow> string list \<Rightarrow> string \<Rightarrow> string \<Rightarrow> string \<Rightarrow> AuthUrl" where
  "generateAuthUrl client access scopes st pr hint =
     \<lparr>response_type = ''code'', url_client_id = clientId client,
      redirect_uri = redirectUri client, access_type = access, url_scope = scopes,
      url_state = st, prompt = pr, login_hint = hint\<rparr>"

text \<open>The parameter \<open>state\<close> is the text \<open>JSON.stringify(state)\<close>; every caller passes \<open>{}\<close>.\<close>

definition getAuthorizationUrl :: "string \<Rightarrow> string \<Rightarrow> World \<Rightarrow> (Err + AuthUrl) \<times> World" where
  "getAuthorizationUrl emailAddress state w =
     (case oauth2Client w of
        None \<Rightarrow> (Inl (Error not_initialized), w)
      | Some client \<Rightarrow>
          (let url = generateAuthUrl client ''offline'' SCOPES state ''consent'' emailAddress
           in (Inr url, w\<lparr>authUrls := authUrls w @ [url]\<rparr>)))"

text \<open>The \<open>catch\<close> block of \<open>getCredentials\<close>.\<close>

definition getCredentials_catch ::
  "Err \<Rightarrow> string \<Rightarrow> string \<Rightarrow> World \<Rightarrow> (Err + OAuth2Client) \<times> World" where
  "getCredentials_catch error emailAddress state w =
     (case error of
        CodeExchangeError u \<Rightarrow>
          (case getAuthorizationUrl emailAddress state w of
             (Inl e, w') \<Rightarrow> (Inl e, w')
           | (Inr authorizationUrl, w') \<Rightarrow> (Inl (CodeExchangeError (Some authorizationUrl)), w'))
      | _ \<Rightarrow>
          (case getAuthorizationUrl emailAddress state w of
             (Inl e, w') \<Rightarrow> (Inl e, w')
           | (Inr authorizationUrl, w') \<Rightarrow> (Inl (NoRefreshTokenError authorizationUrl), w')))"

text \<open>The two statements after the \<open>try\<close> block of \<open>getCredentials\<close>.\<close>

definition getCredentials_end :: "string \<Rightarrow> string \<Rightarrow> World \<Rightarrow> (Err + OAuth2Client) \<times> World" where
  "getCredentials_end emailAddress state w =
     (case getAuthorizationUrl emailAddress state w of
        (Inl e, w') \<Rightarrow> (Inl e, w')
      | (Inr authorizationUrl, w') \<Rightarrow> (Inl (NoRefreshTokenError authorizationUrl), w'))"

definition getCredentials ::
  "Env \<Rightarrow> qvalue \<Rightarrow> string \<Rightarrow> World \<Rightarrow> (Err + OAuth2Client) \<times> World" where
  "getCredentials env authorizationCode state w =
     (case exchangeCode env authorizationCode w of
        (Inl error, w1) \<Rightarrow> getCredentials_catch error '''' state w1
      | (Inr exchanged, w1) \<Rightarrow>
          (case getUserInfo env exchanged of
             (Inl error, client) \<Rightarrow>
               getCredentials_catch error '''' state (w1\<lparr>oauth2Client := Some client\<rparr>)
           | (Inr userInfo, client) \<Rightarrow>
               (let w2 = w1\<lparr>oauth2Client := Some client\<rparr>;
                    emailAddress = info_email userInfo
                in if truthy (refresh_token (credentials client))
                   then (case storeCredentials env client emailAddress w2 of
                           (Inl error, w3) \<Rightarrow> getCredentials_catch error emailAddress state w3
                         | (Inr u, w3) \<Rightarrow> (Inr client, w3))
                   else (case getStoredCredentials emailAddress w2 of
                           (None, w3) \<Rightarrow> getCredentials_end emailAddress state w3
                         | (Some storedCredentials, w3) \<Rightarrow>
                             if truthy (refresh_token (credentials storedCredentials))
                             then (Inr storedCredentials, w3)
                             else getCredentials_end emailAddress state w3))))"

text \<open>
  Modelled from the spec: the method \<open>credentialsHaveScopes\<close> that \<open>setupOAuth2\<close> calls is
  not among the sources. The specification makes a stored record sufficient when its
  granted scopes are a superset of the required scope set.
\<close>

definition credentialsHaveScopes :: "OAuth2Client \<Rightarrow> bool" where
  "credentialsHaveScopes client =
     list_all (\<lambda>s. s \<in> set (scope (credentials client))) SCOPES"

section \<open>The server\<close>

subsection \<open>Starting the interactive flow\<close>

text \<open>
  The browser command: the trimmed value of the environment variable \<open>BROWSER\<close> split at
  runs of white space, or the launcher of the platform. White space is the ASCII part of
  the class \<open>\s\<close>.
\<close>

definition is_space :: "char \<Rightarrow> bool" where
  "is_space c = (c \<in> set [CHR '' '', CHR 0x09, CHR 0x0A, CHR 0x0B, CHR 0x0C, CHR 0x0D])"

definition trim :: "string \<Rightarrow> string" where
  "trim s = rev (dropWhile is_space (rev (dropWhile is_space s)))"

fun split_ws :: "string \<Rightarrow> string list" where
  "split_ws [] = [[]]"
| "split_ws (c # cs) =
     (if is_space c
      then (case cs of
              [] \<Rightarrow> [] # split_ws cs
            | d # ds \<Rightarrow> if is_space d then split_ws cs else [] # split_ws cs)
      else (case split_ws cs of [] \<Rightarrow> [[c]] | t # ts \<Rightarrow> (c # t) # ts))"

definition browser_command :: "Env \<Rightarrow> string \<times> string list" where
  "browser_command env =
     (let browserEnv = trim (BROWSER env)
      in if browserEnv \<noteq> [] then (case split_ws browserEnv of [] \<Rightarrow> ([], []) | p # ps \<Rightarrow> (p, ps))
         else if platform env = ''win32'' then (''cmd'', [''/c'', ''start''])
         else if platform env = ''darwin'' then (''open'', [])
         else (''xdg-open'', []))"

text \<open>
  \<open>OAuthServer.listen\<close>, that is \<open>server.listen(port)\<close> of a new HTTP server, for a port
  number from 1 to 65535. When the port is already bound, by a listener of this process
  or by another process, the server does not bind: it emits \<open>'error'\<close> (\<open>EADDRINUSE\<close>),
  for which \<open>OAuthServer\<close> registers no listener.
\<close>

definition listen :: "Env \<Rightarrow> nat \<Rightarrow> World \<Rightarrow> World" where
  "listen env port w =
     (if port \<in> set (listening w) \<or> port_in_use env port
      then w\<lparr>fatal := fatal w @ [ListenFailed port]\<rparr>
      else w\<lparr>listening := listening w @ [port]\<rparr>)"

text \<open>
  \<open>spawned\<close> records the call of \<open>spawn\<close>; when \<open>spawn\<close> throws, the \<open>catch\<close> logs the URL
  and the flow goes on; an \<open>'error'\<close> that the child emits is not listened for. A new
  \<open>OAuthServer\<close> is then told to listen on the configured port, and the line saying that
  it listens is logged whether or not it could bind.
\<close>

definition startAuthFlow :: "Env \<Rightarrow> nat \<Rightarrow> string \<Rightarrow> World \<Rightarrow> (Err + unit) \<times> World" where
  "startAuthFlow env oauthPort userId w =
     (case getAuthorizationUrl userId ''{}'' w of
        (Inl e, w1) \<Rightarrow> (Inl e, w1)
      | (Inr authUrl, w1) \<Rightarrow>
          (let w2 = w1\<lparr>logged := logged w1 @ [FlowStarting userId authUrl]\<rparr>;
               w3 = w2\<lparr>spawned := spawned w2 @
                      [(fst (browser_command env), snd (browser_command env), authUrl)]\<rparr>;
               w4 = (if spawn_throws env then w3\<lparr>logged := logged w3 @ [LaunchFailed authUrl]\<rparr>
                     else if spawn_fails env
                     then w3\<lparr>fatal := fatal w3 @ [SpawnFailed (fst (browser_command env))]\<rparr>
                     else w3);
               w5 = listen env oauthPort w4
           in (Inr (), w5\<lparr>logged := logged w5 @ [CallbackListening oauthPort]\<rparr>)))"

subsection \<open>The check made before a tool runs\<close>

text \<open>The test \<open>tokens.expiry_date && tokens.expiry_date < Date.now()\<close>.\<close>

definition expired :: "Env \<Rightarrow> Credentials \<Rightarrow> bool" where
  "expired env tokens =
     (case expiry_date tokens of None \<Rightarrow> False | Some t \<Rightarrow> t \<noteq> 0 \<and> t < now env)"

definition setupOAuth2 :: "Env \<Rightarrow> nat \<Rightarrow> string \<Rightarrow> World \<Rightarrow> (Err + unit) \<times> World" where
  "setupOAuth2 env oauthPort userId w =
     (let accounts = getAccountInfo w
      in if length accounts = 0 then (Inl (Error ''No accounts specified in .gauth.json''), w)
         else if \<not> list_ex (\<lambda>a. email a = userId) accounts
         then (Inl (Error (''Account for email: '' @ userId @ '' not specified in .gauth.json'')), w)
         else (case getStoredCredentials userId w of
                 (None, w1) \<Rightarrow> startAuthFlow env oauthPort userId w1
               | (Some stored, w1) \<Rightarrow>
                   if \<not> credentialsHaveScopes stored
                   then startAuthFlow env oauthPort userId
                          (w1\<lparr>logged := logged w1 @ [MissingScopes]\<rparr>)
                   else (let tokens = credentials stored;
                             w2 = (if expired env tokens
                                   then w1\<lparr>logged := logged w1 @ [CredentialsExpired]\<rparr>
                                   else w1)
                         in case getUserInfo env stored of
                              (Inl e, client) \<Rightarrow> (Inl e, w2\<lparr>oauth2Client := Some client\<rparr>)
                            | (Inr userInfo, client) \<Rightarrow>
                                storeCredentials env client userId
                                  (w2\<lparr>oauth2Client := Some client\<rparr>))))"

subsection \<open>The callback listener\<close>

text \<open>
  A request as the handler reads it: \<open>pathname\<close> is \<open>url.pathname\<close> (\<open>None\<close> is \<open>null\<close>),
  \<open>query_code\<close> is \<open>query.code\<close> (\<open>None\<close> is \<open>undefined\<close>). The handler never reads the
  method; the HTTP server that calls the handler does, see \<open>serve\<close> below.
\<close>

record Request =
  req_method :: string
  pathname :: "string option"
  query_code :: "qvalue option"

record Response =
  statusCode :: nat
  body :: string

text \<open>
  \<open>handleRequest\<close> of the \<open>OAuthServer\<close> listening on \<open>port\<close>. The first component is what
  the handler writes with \<open>writeHead\<close> and \<open>write\<close>. The second is how the asynchronous
  handler ends: \<open>Inr ()\<close> when it returns, \<open>Inl e\<close> when the exception \<open>e\<close> leaves it.
  Nothing in the sources catches such an exception.
\<close>

definition handleRequest ::
  "Env \<Rightarrow> nat \<Rightarrow> Request \<Rightarrow> World \<Rightarrow> Response \<times> (Err + unit) \<times> World" where
  "handleRequest env port req w =
     (if pathname req \<noteq> Some ''/code''
      then (\<lparr>statusCode = 404, body = []\<rparr>, Inr (), w)
      else (case query_code req of
              None \<Rightarrow> (\<lparr>statusCode = 400, body = []\<rparr>, Inr (), w)
            | Some code \<Rightarrow>
                if \<not> qtruthy code then (\<lparr>statusCode = 400, body = []\<rparr>, Inr (), w)
                else (let res = \<lparr>statusCode = 200,
                                  body = ''Auth successful! You can close the tab!''\<rparr>
                      in case getCredentials env code ''{}'' w of
                           (Inl e, w1) \<Rightarrow> (res, Inl e, w1)
                         | (Inr client, w1) \<Rightarrow>
                             (res, Inr (), w1\<lparr>listening := remove1 port (listening w1)\<rparr>))))"

text \<open>
  What the HTTP server sends of the response the handler has written: to a \<open>HEAD\<close>
  request the status without the body.
\<close>

definition sent :: "Request \<Rightarrow> Response \<Rightarrow> Response" where
  "sent req res = (if req_method req = ''HEAD'' then res\<lparr>body := []\<rparr> else res)"

text \<open>
  A request sent on a new connection to a port reaches the handler only while the process
  is alive and a listener is bound there (otherwise the connection is refused), and only
  if its method is not \<open>CONNECT\<close> (the server emits \<open>'connect'\<close> instead of \<open>'request'\<close> and,
  no listener being registered for it, closes the connection). The result is \<open>None\<close> when
  no response is sent. The handler is the listener of \<open>'request'\<close>; the promise it returns is
  dropped, so when it is rejected the rejection is unhandled.
\<close>

definition serve ::
  "Env \<Rightarrow> nat \<Rightarrow> Request \<Rightarrow> World \<Rightarrow> (Response \<times> (Err + unit) \<times> World) option" where
  "serve env port req w =
     (if alive w \<and> port \<in> set (listening w) \<and> req_method req \<noteq> ''CONNECT''
      then (case handleRequest env port req w of
              (res, Inl e, w1) \<Rightarrow>
                Some (sent req res, Inl e, w1\<lparr>fatal := fatal w1 @ [UnhandledRejection e]\<rparr>)
            | (res, Inr u, w1) \<Rightarrow> Some (sent req res, Inr u, w1))
      else None)"

subsection \<open>Tool calls\<close>

text \<open>
  The arguments of a call are a dictionary (\<open>None\<close>: not an object); only the member
  \<open>user_id\<close> is read by the server itself. The tool classes are a parameter: given the
  service, the tool name, the arguments and the world they return the content or the
  message of the error they throw.
\<close>

type_synonym ToolArgs = "string \<Rightarrow> string option"

datatype 'c ToolResult = IsError string | ToolContent 'c

type_synonym 'c Tools = "string \<Rightarrow> string \<Rightarrow> ToolArgs \<Rightarrow> World \<Rightarrow> string + 'c"

definition list_accounts_tool :: "string \<Rightarrow> bool" where
  "list_accounts_tool name = (name = ''gmail_list_accounts'' \<or> name = ''calendar_list_accounts'')"

definition routeTool :: "'c Tools \<Rightarrow> string \<Rightarrow> ToolArgs \<Rightarrow> World \<Rightarrow> string + 'c" where
  "routeTool tools name args w =
     (if prefix ''gmail_'' name then tools ''gmail'' name args w
      else if prefix ''calendar_'' name then tools ''calendar'' name args w
      else if prefix ''drive_'' name then tools ''drive'' name args w
      else if prefix ''docs_'' name then tools ''docs'' name args w
      else if prefix ''sheets_'' name then tools ''sheets'' name args w
      else if prefix ''slides_'' name then tools ''slides'' name args w
      else Inl (''Unknown tool: '' @ name))"

definition toolOutcome :: "string \<Rightarrow> (string + 'c) \<Rightarrow> World \<Rightarrow> 'c ToolResult \<times> World" where
  "toolOutcome name r w =
     (case r of
        Inr content \<Rightarrow> (ToolContent content, w)
      | Inl m \<Rightarrow> (IsError (''Tool execution failed: '' @ m),
                  w\<lparr>logged := logged w @ [ToolFailed name m]\<rparr>))"

definition callTool ::
  "'c Tools \<Rightarrow> Env \<Rightarrow> nat \<Rightarrow> string \<Rightarrow> ToolArgs option \<Rightarrow> World \<Rightarrow> 'c ToolResult \<times> World" where
  "callTool tools env oauthPort name arguments w =
     (case arguments of
        None \<Rightarrow> (IsError ''arguments must be dictionary'', w)
      | Some args \<Rightarrow>
          if list_accounts_tool name
          then toolOutcome name
                 (if prefix ''gmail_'' name then tools ''gmail'' name args w
                  else if prefix ''calendar_'' name then tools ''calendar'' name args w
                  else Inl (''Unknown tool: '' @ name)) w
          else (case args ''user_id'' of
                  None \<Rightarrow> (IsError ''user_id argument is missing in dictionary'', w)
                | Some user_id \<Rightarrow>
                    if user_id = [] then (IsError ''user_id argument is missing in dictionary'', w)
                    else (case setupOAuth2 env oauthPort user_id w of
                            (Inl e, w1) \<Rightarrow>
                              (IsError (''OAuth2 setup failed: '' @ message e),
                               w1\<lparr>logged := logged w1 @ [SetupFailed e]\<rparr>)
                          | (Inr u, w1) \<Rightarrow> toolOutcome name (routeTool tools name args w1) w1)))"

subsection \<open>Start-up and the running server\<close>

text \<open>
  The loop of \<open>start\<close> over the accounts. Each round begins by reading a credentials file;
  when the flow started in the round before has ended the process, no further round is
  made.
\<close>

fun start_accounts :: "Env \<Rightarrow> nat \<Rightarrow> AccountInfo list \<Rightarrow> World \<Rightarrow> (Err + unit) \<times> World" where
  "start_accounts env oauthPort [] w = (Inr (), w)"
| "start_accounts env oauthPort (account # rest) w =
     (case getStoredCredentials (email account) w of
        (Some creds, w1) \<Rightarrow>
          start_accounts env oauthPort rest
            (w1\<lparr>logged := logged w1 @ [FoundCredentials (email account)]\<rparr>)
      | (None, w1) \<Rightarrow>
          (case startAuthFlow env oauthPort (email account)
                  (w1\<lparr>logged := logged w1 @ [NoCredentials (email account)]\<rparr>) of
             (Inl e, w2) \<Rightarrow> (Inl e, w2)
           | (Inr u, w2) \<Rightarrow>
               if alive w2 then start_accounts env oauthPort rest w2 else (Inr (), w2)))"

definition start :: "Env \<Rightarrow> nat \<Rightarrow> World \<Rightarrow> (Err + unit) \<times> World" where
  "start env oauthPort w =
     (case (case initialize w of
              (Inl e, w1) \<Rightarrow> (Inl e, w1)
            | (Inr u, w1) \<Rightarrow> start_accounts env oauthPort (getAccountInfo w1) w1) of
        (Inl e, w2) \<Rightarrow> (Inl e, w2\<lparr>logged := logged w2 @ [ServerError e]\<rparr>)
      | (Inr u, w2) \<Rightarrow> (Inr (), w2))"

text \<open>
  The script: it calls \<open>start\<close> and, when \<open>start\<close> fails, logs the error and leaves with
  \<open>process.exit(1)\<close>.
\<close>

definition main :: "Env \<Rightarrow> nat \<Rightarrow> World \<Rightarrow> World" where
  "main env oauthPort w =
     (case start env oauthPort w of
        (Inl e, w1) \<Rightarrow> w1\<lparr>logged := logged w1 @ [FatalError e], fatal := fatal w1 @ [Exit 1]\<rparr>
      | (Inr u, w1) \<Rightarrow> w1)"

text \<open>The world of a process that has just been started.\<close>

definition boot ::
  "GauthFile \<Rightarrow> AccountInfo list option \<Rightarrow> (string \<Rightarrow> Credentials option) \<Rightarrow> World" where
  "boot gauth accounts files =
     \<lparr>oauth2Client = None, gauthFile = gauth, accountsFile = accounts,
      credentialFiles = files, fileWrites = [], authUrls = [], spawned = [],
      listening = [], logged = [], fatal = []\<rparr>"

text \<open>
  What reaches the running server: a tool call, or an HTTP request sent to a local port.
  Each comes with the answers the outside gives while it is handled. Nothing reaches a
  process that has ended.
\<close>

datatype Event = CallTool string "ToolArgs option" | HttpRequest nat Request

fun step :: "'c Tools \<Rightarrow> nat \<Rightarrow> Env \<times> Event \<Rightarrow> World \<Rightarrow> World" where
  "step tools oauthPort (env, CallTool name arguments) w =
     (if alive w then snd (callTool tools env oauthPort name arguments w) else w)"
| "step tools oauthPort (env, HttpRequest port req) w =
     (case serve env port req w of None \<Rightarrow> w | Some (res, r, w') \<Rightarrow> w')"

fun run :: "'c Tools \<Rightarrow> nat \<Rightarrow> (Env \<times> Event) list \<Rightarrow> World \<Rightarrow> World" where
  "run tools oauthPort [] w = w"
| "run tools oauthPort (ev # evs) w = run tools oauthPort evs (step tools oauthPort ev w)"

text \<open>
  The port a browser connects to when it follows a redirect to \<open>http://host:port/path\<close>.
\<close>

definition digit_value :: "char \<Rightarrow> nat option" where
  "digit_value c = index_in ''0123456789'' c"

fun decimal :: "nat \<Rightarrow> string \<Rightarrow> nat option" where
  "decimal n [] = Some n"
| "decimal n (c # cs) =
     (case digit_value c of None \<Rightarrow> None | Some d \<Rightarrow> decimal (10 * n + d) cs)"

definition uri_port :: "string \<Rightarrow> nat option" where
  "uri_port uri =
     (if \<not> prefix ''http://'' uri then None
      else (let authority = takeWhile (\<lambda>c. c \<noteq> CHR ''/'') (drop 7 uri)
            in case dropWhile (\<lambda>c. c \<noteq> CHR '':'') authority of
                 [] \<Rightarrow> Some 80
               | colon # digits \<Rightarrow> if digits = [] then Some 80 else decimal 0 digits))"

section \<open>Gmail bulk operations\<close>

text \<open>
  The answers of the Gmail API: \<open>Inl m\<close> is a rejected call with message \<open>m\<close>. Of a message
  only the parts of its payload are read (\<open>msg_parts = None\<close>: no \<open>payload.parts\<close>).
\<close>

record Part =
  partId :: string
  filename :: string
  mimeType :: string
  attachmentId :: "string option"

record Message =
  msg_id :: string
  msg_parts :: "Part list option"

record Attachment =
  att_filename :: string
  att_mimeType :: string
  att_attachmentId :: string

record EmailResult =
  email_data :: Message
  attachments :: "string \<Rightarrow> Attachment option"

text \<open>
  What \<open>users.messages.attachments.get\<close> returns: \<open>att_data\<close> is \<open>data.data\<close>, the
  base64url text of the attachment, \<open>att_size\<close> is \<open>data.size\<close>.
\<close>

record AttachmentData =
  att_data :: "string option"
  att_size :: "nat option"

record GmailApi =
  messages_get :: "string \<Rightarrow> string \<Rightarrow> string + Message"
  messages_modify :: "string \<Rightarrow> string \<Rightarrow> string option"
  attachments_get :: "string \<Rightarrow> string \<Rightarrow> string \<Rightarrow> string + AttachmentData"

text \<open>
  \<open>Promise.all\<close> over the calls of a batch: fulfilled with all results in order when every
  call is fulfilled, rejected as soon as one call is rejected. Which rejection is reported
  when several calls fail depends on timing; here it is the first in the order of the list.
\<close>

fun promise_all :: "('e + 'a) list \<Rightarrow> 'e + 'a list" where
  "promise_all [] = Inr []"
| "promise_all (Inl e # rs) = Inl e"
| "promise_all (Inr x # rs) = (case promise_all rs of Inl e \<Rightarrow> Inl e | Inr xs \<Rightarrow> Inr (x # xs))"

text \<open>The loop over \<open>payload.parts\<close> that fills the object \<open>attachments\<close>.\<close>

fun collect_attachments ::
  "Part list \<Rightarrow> (string \<Rightarrow> Attachment option) \<Rightarrow> string \<Rightarrow> Attachment option" where
  "collect_attachments [] acc = acc"
| "collect_attachments (part # rest) acc =
     collect_attachments rest
       (case attachmentId part of
          None \<Rightarrow> acc
        | Some a \<Rightarrow>
            if a = [] then acc
            else acc(partId part \<mapsto>
                   \<lparr>att_filename = filename part, att_mimeType = mimeType part,
                    att_attachmentId = a\<rparr>))"

definition email_result :: "Message \<Rightarrow> EmailResult" where
  "email_result m =
     \<lparr>email_data = m,
      attachments = (case msg_parts m of None \<Rightarrow> Map.empty
                     | Some ps \<Rightarrow> collect_attachments ps Map.empty)\<rparr>"

definition get_one_email :: "GmailApi \<Rightarrow> string \<Rightarrow> string \<Rightarrow> string + EmailResult" where
  "get_one_email api userId emailId =
     (case messages_get api userId emailId of Inl m \<Rightarrow> Inl m | Inr d \<Rightarrow> Inr (email_result d))"

definition bulkGetEmails ::
  "GmailApi \<Rightarrow> string option \<Rightarrow> string list option \<Rightarrow> string + EmailResult list" where
  "bulkGetEmails api user_id email_ids =
     (case user_id of
        None \<Rightarrow> Inl ''Missing required argument: user_id''
      | Some userId \<Rightarrow>
          if userId = [] then Inl ''Missing required argument: user_id''
          else (case email_ids of
                  None \<Rightarrow> Inl ''Missing required argument: email_ids''
                | Some emailIds \<Rightarrow>
                    if length emailIds = 0 then Inl ''Missing required argument: email_ids''
                    else promise_all (map (get_one_email api userId) emailIds)))"

fun join :: "string \<Rightarrow> string list \<Rightarrow> string" where
  "join sep [] = []"
| "join sep [x] = x"
| "join sep (x # y # ys) = x @ sep @ join sep (y # ys)"

definition archive_one :: "GmailApi \<Rightarrow> string \<Rightarrow> string \<Rightarrow> string + string" where
  "archive_one api userId messageId =
     (case messages_modify api userId messageId of Some m \<Rightarrow> Inl m | None \<Rightarrow> Inr messageId)"

definition bulkArchive :: "GmailApi \<Rightarrow> string option \<Rightarrow> string list option \<Rightarrow> string + string" where
  "bulkArchive api user_id message_ids =
     (case user_id of
        None \<Rightarrow> Inl ''Missing required argument: user_id''
      | Some userId \<Rightarrow>
          if userId = [] then Inl ''Missing required argument: user_id''
          else (case message_ids of
                  None \<Rightarrow> Inl ''Missing required argument: message_ids''
                | Some messageIds \<Rightarrow>
                    if length messageIds = 0 then Inl ''Missing required argument: message_ids''
                    else (case promise_all (map (archive_one api userId) messageIds) of
                            Inl m \<Rightarrow> Inl m
                          | Inr archivedMessages \<Rightarrow>
                              Inr (''Messages '' @ join '', '' archivedMessages @
                                   '' archived successfully''))))"

text \<open>
  \<open>bulkSaveAttachments\<close>: each element of the argument names a message, a part and the
  path to save to. \<open>write_error\<close> gives the message of the error with which writing to a
  path fails, if it fails; the disk maps a path to the bytes written there. Every call of
  the batch runs, so the files of the calls that succeed are written even when the batch
  as a whole is rejected.
\<close>

record AttachmentRequest =
  message_id :: string
  part_id :: string
  save_path :: string

record SavedAttachment =
  saved_messageId :: string
  saved_partId :: string
  saved_savePath :: string
  saved_size :: "nat option"

type_synonym Disk = "string \<Rightarrow> byte list option"

definition save_one ::
  "GmailApi \<Rightarrow> (string \<Rightarrow> string option) \<Rightarrow> string \<Rightarrow> AttachmentRequest \<Rightarrow> Disk \<Rightarrow>
     (string + SavedAttachment) \<times> Disk" where
  "save_one api write_error userId attachmentInfo disk =
     (let messageId = message_id attachmentInfo;
          partId = part_id attachmentInfo;
          savePath = save_path attachmentInfo
      in case attachments_get api userId messageId partId of
           Inl m \<Rightarrow> (Inl m, disk)
         | Inr attachmentData \<Rightarrow>
             (case att_data attachmentData of
                None \<Rightarrow>
                  (Inl (''No data found for attachment '' @ partId @ '' in message '' @ messageId),
                   disk)
              | Some fileData \<Rightarrow>
                  if fileData = []
                  then (Inl (''No data found for attachment '' @ partId @ '' in message '' @
                             messageId), disk)
                  else (let decodedData = decodeBase64Data fileData
                        in case write_error savePath of
                             Some m \<Rightarrow> (Inl m, disk)
                           | None \<Rightarrow>
                               (Inr \<lparr>saved_messageId = messageId, saved_partId = partId,
                                     saved_savePath = savePath,
                                     saved_size = att_size attachmentData\<rparr>,
                                disk(savePath \<mapsto> decodedData)))))"

fun save_all ::
  "GmailApi \<Rightarrow> (string \<Rightarrow> string option) \<Rightarrow> string \<Rightarrow> AttachmentRequest list \<Rightarrow> Disk \<Rightarrow>
     (string + SavedAttachment) list \<times> Disk" where
  "save_all api write_error userId [] disk = ([], disk)"
| "save_all api write_error userId (attachmentInfo # rest) disk =
     (case save_one api write_error userId attachmentInfo disk of
        (r, disk1) \<Rightarrow>
          (case save_all api write_error userId rest disk1 of
             (rs, disk2) \<Rightarrow> (r # rs, disk2)))"

definition bulkSaveAttachments ::
  "GmailApi \<Rightarrow> (string \<Rightarrow> string option) \<Rightarrow> string option \<Rightarrow> AttachmentRequest list option \<Rightarrow>
     Disk \<Rightarrow> (string + SavedAttachment list) \<times> Disk" where
  "bulkSaveAttachments api write_error user_id attachments_arg disk =
     (case user_id of
        None \<Rightarrow> (Inl ''Missing required argument: user_id'', disk)
      | Some userId \<Rightarrow>
          if userId = [] then (Inl ''Missing required argument: user_id'', disk)
          else (case attachments_arg of
                  None \<Rightarrow> (Inl ''Missing required argument: attachments'', disk)
                | Some requests \<Rightarrow>
                    if length requests = 0
                    then (Inl ''Missing required argument: attachments'', disk)
                    else (case save_all api write_error userId requests disk of
                            (rs, disk') \<Rightarrow> (promise_all rs, disk'))))"

section \<open>Notions used in the statements\<close>

text \<open>The URL that \<open>getAuthorizationUrl\<close> builds for a client, a state and a login hint.\<close>

definition auth_url :: "OAuth2Client \<Rightarrow> string \<Rightarrow> string \<Rightarrow> AuthUrl" where
  "auth_url client state emailAddress =
     generateAuthUrl client ''offline'' SCOPES state ''consent'' emailAddress"

text \<open>
  The way \<open>getCredentials\<close> fails once the client is initialized and the token endpoint
  has answered: \<open>NoRefreshTokenError\<close> with a newly generated URL, which is also recorded
  in the world; \<open>held\<close> is the client as the failed attempt leaves it.
\<close>

definition exchange_failure ::
  "OAuth2Client \<Rightarrow> string \<Rightarrow> World \<Rightarrow> OAuth2Client \<Rightarrow> string \<Rightarrow> (Err + OAuth2Client) \<times> World" where
  "exchange_failure c st w held hint =
     (Inl (NoRefreshTokenError (auth_url c st hint)),
      w\<lparr>oauth2Client := Some held, authUrls := authUrls w @ [auth_url c st hint]\<rparr>)"

text \<open>The response \<open>handleRequest\<close> writes before it exchanges the code.\<close>

definition confirmation :: Response where
  "confirmation = \<lparr>statusCode = 200, body = ''Auth successful! You can close the tab!''\<rparr>"

text \<open>A correct redirect: a \<open>GET\<close> on the callback path with a code that is not empty.\<close>

definition correct_redirect :: "Request \<Rightarrow> bool" where
  "correct_redirect req =
     (req_method req = ''GET'' \<and> pathname req = Some ''/code''
      \<and> (case query_code req of None \<Rightarrow> False | Some code \<Rightarrow> qtruthy code))"

text \<open>
  What holds in every world the server reaches when it was started with the listener port
  \<open>oauthPort\<close>: the client, once constructed, carries the constant redirect URI, so does
  every URL generated, every bound listener is on \<open>oauthPort\<close>, and no port is bound twice.
\<close>

definition client_redirect_fixed :: "World \<Rightarrow> bool" where
  "client_redirect_fixed w =
     (case oauth2Client w of None \<Rightarrow> True | Some client \<Rightarrow> redirectUri client = REDIRECT_URI)"

definition flow_invariant :: "nat \<Rightarrow> World \<Rightarrow> bool" where
  "flow_invariant oauthPort w =
     (client_redirect_fixed w
      \<and> list_all (\<lambda>u. redirect_uri u = REDIRECT_URI) (authUrls w)
      \<and> list_all (\<lambda>p. p = oauthPort) (listening w)
      \<and> distinct (listening w))"

section \<open>Example data\<close>

text \<open>
  One configured account, \<open>a@example.com\<close>. The token endpoint accepts the code \<open>ok\<close>
  (tokens with a refresh token) and the code \<open>once\<close> (the same tokens without a refresh
  token) and rejects every other code; the user-info endpoint always answers with the
  identity of \<open>b@example.com\<close>; the clock reads 1000, after the expiry of the tokens.
  The browser can be launched and no other process listens on a port. In
  \<open>example_world\<close> the client is initialized and no listener is bound.
  The Gmail API rejects every call that concerns the message \<open>2\<close> and answers all others.
\<close>

definition example_tokens :: Credentials where
  "example_tokens =
     \<lparr>access_token = Some ''at'', refresh_token = Some ''rt'', expiry_date = Some 100,
      scope = SCOPES\<rparr>"

definition example_identity :: Userinfo where
  "example_identity = \<lparr>info_id = Some ''42'', info_email = ''b@example.com''\<rparr>"

definition example_env :: Env where
  "example_env =
     \<lparr>getToken = (\<lambda>code. if code = QString ''ok'' then Some example_tokens
                          else if code = QString ''once''
                          then Some (example_tokens\<lparr>refresh_token := None\<rparr>)
                          else None),
      userinfo_get = (\<lambda>creds. (Data example_identity, creds)),
      fs_write_error = (\<lambda>userId. None),
      platform = ''linux'', BROWSER = [], spawn_throws = False, spawn_fails = False,
      port_in_use = (\<lambda>port. False), now = 1000\<rparr>"

definition example_client :: OAuth2Client where
  "example_client =
     \<lparr>clientId = ''id'', clientSecret = ''secret'', redirectUri = REDIRECT_URI,
      credentials = no_credentials\<rparr>"

definition example_accounts :: "AccountInfo list" where
  "example_accounts = [\<lparr>email = ''a@example.com'', accountType = ''personal'', extraInfo = []\<rparr>]"

definition example_world :: "(string \<Rightarrow> Credentials option) \<Rightarrow> World" where
  "example_world files =
     \<lparr>oauth2Client = Some example_client, gauthFile = GauthInstalled ''id'' ''secret'',
      accountsFile = Some example_accounts, credentialFiles = files, fileWrites = [],
      authUrls = [], spawned = [], listening = [], logged = [], fatal = []\<rparr>"

definition code_request :: "string \<Rightarrow> Request" where
  "code_request code =
     \<lparr>req_method = ''GET'', pathname = Some ''/code'', query_code = Some (QString code)\<rparr>"

definition example_api :: GmailApi where
  "example_api =
     \<lparr>messages_get = (\<lambda>userId i. if i = ''2'' then Inl ''Not Found''
                                  else Inr \<lparr>msg_id = i, msg_parts = None\<rparr>),
      messages_modify = (\<lambda>userId i. if i = ''2'' then Some ''Not Found'' else None),
      attachments_get = (\<lambda>userId m i. if m = ''2'' then Inl ''Not Found''
                                       else Inr \<lparr>att_data = Some ''-_8'', att_size = Some 2\<rparr>)\<rparr>"

definition example_request :: "string \<Rightarrow> AttachmentRequest" where
  "example_request m = \<lparr>message_id = m, part_id = ''0'', save_path = ''/tmp/'' @ m\<rparr>"

definition example_tools :: "unit Tools" where
  "example_tools service name args w = Inr ()"

text \<open>
  \<open>example_started\<close> is the world after start-up on port 4100 with no credentials on disk:
  the flow for \<open>a@example.com\<close> has been started and its listener waits.
  \<open>example_failed\<close> is that world after the listener was sent the code \<open>bad\<close>,
  \<open>example_authorized\<close> that world after the listener was sent the code \<open>ok\<close>.
\<close>

definition example_started :: World where
  "example_started =
     main example_env 4100
       (boot (GauthInstalled ''id'' ''secret'') (Some example_accounts) Map.empty)"


definition example_authorized :: World where
  "example_authorized =
     example_started
       \<lparr>oauth2Client := Some (example_client\<lparr>credentials := example_tokens\<rparr>),
        credentialFiles := [''b@example.com'' \<mapsto> example_tokens],
        fileWrites := [(''b@example.com'', example_tokens)],
        listening := []\<rparr>"

section \<open>Properties of \<open>decodeBase64Data\<close>\<close>

lemma alphabet_table:
  "list_all (\<lambda>n. index_in b64_alphabet (url_std_char n) = Some n
       \<and> url_std_char n \<noteq> CHR ''='') [0..<64]"
  by code_simp

lemma alphabet_roundtrip:
  assumes "n < 64"
  shows "index_in b64_alphabet (url_std_char n) = Some n"
    and "url_std_char n \<noteq> CHR ''=''"
  using alphabet_table assms by (auto simp: list_all_iff)

lemma unat_byte: "unat (a :: byte) < 256"
  using unsigned_less [of a] by simp

lemma high_bits_of_pair:
  fixes a b :: nat
  assumes "b < 256"
  shows "a div 4 * 4 + (a mod 4 * 16 + b div 16) div 16 = a"
proof -
  have "b div 16 < 16" using assms by simp
  then have "(a mod 4 * 16 + b div 16) div 16 = a mod 4" by simp
  then show ?thesis by simp
qed

lemma middle_byte:
  fixes a b c :: nat
  assumes "b < 256" "c < 256"
  shows "(a mod 4 * 16 + b div 16) mod 16 * 16 + (b mod 16 * 4 + c div 64) div 4 = b"
proof -
  have "b div 16 < 16" using assms by simp
  then have hi: "(a mod 4 * 16 + b div 16) mod 16 = b div 16" by simp
  have "c div 64 < 4" using assms by simp
  then have lo: "(b mod 16 * 4 + c div 64) div 4 = b mod 16" by simp
  show ?thesis unfolding hi lo by simp
qed

lemma last_byte:
  fixes b c :: nat
  assumes "c < 256"
  shows "(b mod 16 * 4 + c div 64) mod 4 * 64 + c mod 64 = c"
proof -
  have "c div 64 < 4" using assms by simp
  then have hi: "(b mod 16 * 4 + c div 64) mod 4 = c div 64" by simp
  show ?thesis unfolding hi by simp
qed

lemma middle_byte_short:
  fixes a b :: nat
  assumes "b < 256"
  shows "(a mod 4 * 16 + b div 16) mod 16 * 16 + (b mod 16 * 4) div 4 = b"
proof -
  have "b div 16 < 16" using assms by simp
  then have hi: "(a mod 4 * 16 + b div 16) mod 16 = b div 16" by simp
  show ?thesis unfolding hi by simp
qed

lemma single_byte:
  fixes a :: nat
  shows "a div 4 * 4 + (a mod 4 * 16) div 16 = a"
  by simp

lemma sextet_bounds:
  fixes a b c :: byte
  shows "unat a div 4 < 64" "unat a mod 4 * 16 + unat b div 16 < 64"
    "unat b mod 16 * 4 + unat c div 64 < 64"
    "unat c mod 64 < 64" "unat b mod 16 * 4 < 64" "unat a mod 4 * 16 < 64"
proof -
  have "unat a mod 4 < 4" "unat b div 16 < 16" "unat b mod 16 < 16" "unat c div 64 < 4"
    using unat_byte [of b] unat_byte [of c] by simp_all
  then show "unat a mod 4 * 16 + unat b div 16 < 64" "unat b mod 16 * 4 + unat c div 64 < 64"
    "unat b mod 16 * 4 < 64" "unat a mod 4 * 16 < 64" by linarith+
  show "unat a div 4 < 64" using unat_byte [of a] by simp
  show "unat c mod 64 < 64" by simp
qed

lemma sextets_bound: "list_all (\<lambda>n. n < 64) (sextets bs)"
  by (induction bs rule: sextets.induct) (simp_all add: sextet_bounds)

lemma group_bytes:
  fixes a b c :: byte
  shows "word_of_nat (unat a div 4 * 4 + (unat a mod 4 * 16 + unat b div 16) div 16) = a"
    and "word_of_nat ((unat a mod 4 * 16 + unat b div 16) mod 16 * 16 +
           (unat b mod 16 * 4 + unat c div 64) div 4) = b"
    and "word_of_nat ((unat b mod 16 * 4 + unat c div 64) mod 4 * 64 + unat c mod 64) = c"
    and "word_of_nat ((unat a mod 4 * 16 + unat b div 16) mod 16 * 16 + (unat b mod 16 * 4) div 4) = b"
    and "word_of_nat (unat a div 4 * 4 + (unat a mod 4 * 16) div 16) = a"
  by (simp_all only: high_bits_of_pair [OF unat_byte] middle_byte [OF unat_byte unat_byte]
        last_byte [OF unat_byte] middle_byte_short [OF unat_byte] single_byte
        of_nat_unat ucast_id)

lemma unsextets_sextets: "unsextets (sextets bs) = bs"
  by (induction bs rule: sextets.induct)
     (simp_all only: sextets.simps unsextets.simps append_Cons append_Nil group_bytes)

lemma map_filter_map_Some:
  "list_all (\<lambda>x. f (g x) = Some x) xs \<Longrightarrow> List.map_filter f (map g xs) = xs"
  by (induction xs) (simp_all add: List.map_filter_simps)

lemma takeWhile_padding:
  "list_all (\<lambda>c. c \<noteq> p) xs \<Longrightarrow> takeWhile (\<lambda>c. c \<noteq> p) (xs @ replicate k p) = xs"
  by (induction xs) (simp_all add: takeWhile_replicate)

lemma replacements_std_char:
  "replace_char CHR ''_'' CHR ''/'' (replace_char CHR ''-'' CHR ''+'' s) = map std_char s"
  by (simp add: replace_char_def std_char_def Let_def)

lemma std_char_padding: "map std_char (replicate k CHR ''='') = replicate k CHR ''=''"
  by (simp add: std_char_def)

lemma Buffer_from_base64_std:
  assumes "list_all (\<lambda>n. n < 64) ss"
  shows "Buffer_from_base64 (map url_std_char ss @ replicate k CHR ''='') = unsextets ss"
proof -
  have idx: "list_all (\<lambda>n. index_in b64_alphabet (url_std_char n) = Some n) ss"
    using assms by (simp add: list_all_iff alphabet_roundtrip)
  have nopad: "list_all (\<lambda>c. c \<noteq> CHR ''='') (map url_std_char ss)"
    using assms by (simp add: list_all_iff alphabet_roundtrip)
  show ?thesis
    unfolding Buffer_from_base64_def
    by (simp only: takeWhile_padding [OF nopad]
          map_filter_map_Some [of "index_in b64_alphabet" url_std_char, OF idx])
qed

lemma std_char_encode: "map std_char (base64url_encode bs) = map url_std_char (sextets bs)"
  by (simp add: base64url_encode_def url_std_char_def)

text \<open>
  Claim C8. For every byte sequence \<open>bs\<close>, \<open>decodeBase64Data\<close> applied to the base64url
  encoding of \<open>bs\<close> returns exactly \<open>bs\<close>, whether or not the encoding carries its \<open>=\<close>
  padding: the function maps \<open>-\<close> to \<open>+\<close> and \<open>_\<close> to \<open>/\<close>, pads to a multiple of four
  characters and decodes the result as standard base64.
\<close>

theorem decodeBase64Data_roundtrip:
  "decodeBase64Data (base64url_encode bs) = bs \<and>
   decodeBase64Data (base64url_encode_padded bs) = bs"
proof
  show "decodeBase64Data (base64url_encode bs) = bs"
    unfolding decodeBase64Data_def Let_def replacements_std_char std_char_encode
    by (simp only: Buffer_from_base64_std [OF sextets_bound] unsextets_sextets)
  have "map std_char (base64url_encode_padded bs) =
      map url_std_char (sextets bs) @ replicate ((3 - length bs mod 3) mod 3) CHR ''=''"
    by (simp only: base64url_encode_padded_def map_append std_char_encode std_char_padding)
  then show "decodeBase64Data (base64url_encode_padded bs) = bs"
    unfolding decodeBase64Data_def Let_def replacements_std_char
    by (simp only: append_assoc replicate_add [symmetric]
          Buffer_from_base64_std [OF sextets_bound] unsextets_sextets)
qed

theorem decodeBase64Data_roundtrip_witness:
  "decodeBase64Data ''-_8'' = [0xFB, 0xFF] \<and> decodeBase64Data ''-_8='' = [0xFB, 0xFF]"
proof -
  have plain: "base64url_encode [0xFB, 0xFF] = ''-_8''"
    by code_simp
  have padded: "base64url_encode_padded [0xFB, 0xFF] = ''-_8=''"
    by code_simp
  show ?thesis
    using decodeBase64Data_roundtrip [of "[0xFB, 0xFF]"] unfolding plain padded .
qed

section \<open>Basic facts about the service and the flow\<close>

lemma truthy_simps [simp]:
  "truthy None = False" "truthy (Some s) = (s \<noteq> [])"
  by (simp_all add: truthy_def)

lemma getAuthorizationUrl_None:
  "oauth2Client w = None \<Longrightarrow> getAuthorizationUrl e st w = (Inl (Error not_initialized), w)"
  by (simp add: getAuthorizationUrl_def)

lemma getAuthorizationUrl_Some:
  "oauth2Client w = Some c \<Longrightarrow>
   getAuthorizationUrl e st w = (Inr (auth_url c st e), w\<lparr>authUrls := authUrls w @ [auth_url c st e]\<rparr>)"
  by (simp add: getAuthorizationUrl_def auth_url_def Let_def)

lemma auth_url_credentials [simp]:
  "auth_url (c\<lparr>credentials := x\<rparr>) st h = auth_url c st h"
  by (simp add: auth_url_def generateAuthUrl_def)

lemma auth_url_fields:
  "auth_url c st e =
     \<lparr>response_type = ''code'', url_client_id = clientId c, redirect_uri = redirectUri c,
      access_type = ''offline'', url_scope = SCOPES, url_state = st, prompt = ''consent'',
      login_hint = e\<rparr>"
  by (simp add: auth_url_def generateAuthUrl_def)

lemma listen_simps:
  "listening (listen env port w) =
     (if port \<in> set (listening w) \<or> port_in_use env port then listening w
      else listening w @ [port])"
  "fatal (listen env port w) =
     (if port \<in> set (listening w) \<or> port_in_use env port then fatal w @ [ListenFailed port]
      else fatal w)"
  "oauth2Client (listen env port w) = oauth2Client w"
  "authUrls (listen env port w) = authUrls w"
  "spawned (listen env port w) = spawned w"
  "credentialFiles (listen env port w) = credentialFiles w"
  "fileWrites (listen env port w) = fileWrites w"
  "logged (listen env port w) = logged w"
  by (simp_all add: listen_def)

lemma startAuthFlow_None:
  "oauth2Client w = None \<Longrightarrow> startAuthFlow env port u w = (Inl (Error not_initialized), w)"
  by (simp add: startAuthFlow_def getAuthorizationUrl_None)

lemma startAuthFlow_Some:
  assumes "oauth2Client w = Some c"
  shows "fst (startAuthFlow env port u w) = Inr ()"
    and "authUrls (snd (startAuthFlow env port u w)) = authUrls w @ [auth_url c ''{}'' u]"
    and "listening (snd (startAuthFlow env port u w)) =
           (if port \<in> set (listening w) \<or> port_in_use env port then listening w
            else listening w @ [port])"
    and "spawned (snd (startAuthFlow env port u w)) =
           spawned w @ [(fst (browser_command env), snd (browser_command env), auth_url c ''{}'' u)]"
    and "oauth2Client (snd (startAuthFlow env port u w)) = Some c"
    and "credentialFiles (snd (startAuthFlow env port u w)) = credentialFiles w"
    and "fileWrites (snd (startAuthFlow env port u w)) = fileWrites w"
    and "fatal (snd (startAuthFlow env port u w)) =
           fatal w
           @ (if \<not> spawn_throws env \<and> spawn_fails env
              then [SpawnFailed (fst (browser_command env))] else [])
           @ (if port \<in> set (listening w) \<or> port_in_use env port then [ListenFailed port] else [])"
    and "logged (snd (startAuthFlow env port u w)) =
           logged w @ [FlowStarting u (auth_url c ''{}'' u)]
           @ (if spawn_throws env then [LaunchFailed (auth_url c ''{}'' u)] else [])
           @ [CallbackListening port]"
  by (simp_all add: startAuthFlow_def getAuthorizationUrl_Some [OF assms] Let_def assms listen_simps)

lemma getStoredCredentials_Some:
  assumes "oauth2Client w = Some c" "credentialFiles w userId = Some r"
  shows "getStoredCredentials userId w =
           (Some (c\<lparr>credentials := r\<rparr>), w\<lparr>oauth2Client := Some (c\<lparr>credentials := r\<rparr>)\<rparr>)"
  using assms by (simp add: getStoredCredentials_def Let_def)

lemma getStoredCredentials_result:
  "getStoredCredentials u w = (Some c, w1) \<Longrightarrow> oauth2Client w1 = Some c"
  by (auto simp: getStoredCredentials_def Let_def split: option.splits)

lemma getUserInfo_client:
  "snd (getUserInfo env cl) = cl\<lparr>credentials := snd (userinfo_get env (credentials cl))\<rparr>"
  by (cases "userinfo_get env (credentials cl)")
     (simp add: getUserInfo_def Let_def split: UserinfoReply.splits)

subsection \<open>Evaluation of the example data\<close>

lemma example_env_simps [simp]:
  "getToken example_env (QString ''ok'') = Some example_tokens"
  "getToken example_env (QString ''once'') = Some (example_tokens\<lparr>refresh_token := None\<rparr>)"
  "getToken example_env (QString ''bad'') = None"
  "userinfo_get example_env creds = (Data example_identity, creds)"
  "fs_write_error example_env userId = None"
  "now example_env = 1000"
  "spawn_throws example_env = False"
  "spawn_fails example_env = False"
  "port_in_use example_env port = False"
  "browser_command example_env = (''xdg-open'', [])"
  by (simp_all add: example_env_def browser_command_def trim_def)

lemma example_world_simps [simp]:
  "oauth2Client (example_world files) = Some example_client"
  "credentialFiles (example_world files) = files"
  "fileWrites (example_world files) = []"
  "authUrls (example_world files) = []"
  "spawned (example_world files) = []"
  "listening (example_world files) = []"
  "logged (example_world files) = []"
  "fatal (example_world files) = []"
  "getAccountInfo (example_world files) = example_accounts"
  by (simp_all add: example_world_def getAccountInfo_def)

lemma example_identity_simps [simp]:
  "truthy (info_id example_identity)" "info_email example_identity = ''b@example.com''"
  by (simp_all add: example_identity_def truthy_def)

lemma example_tokens_simps [simp]:
  "truthy (refresh_token example_tokens)"
  "\<not> truthy (refresh_token (example_tokens\<lparr>refresh_token := None\<rparr>))"
  "scope example_tokens = SCOPES" "expiry_date example_tokens = Some 100"
  by (simp_all add: example_tokens_def truthy_def)

section \<open>The code exchange: \<open>getCredentials\<close>\<close>

text \<open>
  \<open>getCredentials\<close> case by case: which answers of the outside lead to which result and
  to which world.
\<close>

lemma getCredentials_catch_Some:
  assumes "oauth2Client w = Some c"
  shows "getCredentials_catch (CodeExchangeError u) hint st w =
           (Inl (CodeExchangeError (Some (auth_url c st hint))),
            w\<lparr>authUrls := authUrls w @ [auth_url c st hint]\<rparr>)"
    and "getCredentials_catch (Error m) hint st w =
           (Inl (NoRefreshTokenError (auth_url c st hint)),
            w\<lparr>authUrls := authUrls w @ [auth_url c st hint]\<rparr>)"
    and "getCredentials_catch NoUserIdError hint st w =
           (Inl (NoRefreshTokenError (auth_url c st hint)),
            w\<lparr>authUrls := authUrls w @ [auth_url c st hint]\<rparr>)"
    and "getCredentials_end hint st w =
           (Inl (NoRefreshTokenError (auth_url c st hint)),
            w\<lparr>authUrls := authUrls w @ [auth_url c st hint]\<rparr>)"
  by (simp_all add: getCredentials_catch_def getCredentials_end_def
        getAuthorizationUrl_Some [OF assms])

lemma getCredentials_flat:
  "getCredentials env code st w =
    (case oauth2Client w of
       None \<Rightarrow> (Inl (Error not_initialized), w)
     | Some c \<Rightarrow>
         (case getToken env code of
            None \<Rightarrow> (Inl (CodeExchangeError (Some (auth_url c st []))),
                      w\<lparr>authUrls := authUrls w @ [auth_url c st []]\<rparr>)
          | Some tokens \<Rightarrow>
              (case fst (userinfo_get env tokens) of
                 ApiFailure m \<Rightarrow>
                   exchange_failure c st w (c\<lparr>credentials := snd (userinfo_get env tokens)\<rparr>) []
               | Data d \<Rightarrow>
                   if \<not> truthy (info_id d)
                   then exchange_failure c st w (c\<lparr>credentials := snd (userinfo_get env tokens)\<rparr>) []
                   else if truthy (refresh_token (snd (userinfo_get env tokens)))
                   then (case fs_write_error env (info_email d) of
                           Some m \<Rightarrow>
                             exchange_failure c st w
                               (c\<lparr>credentials := snd (userinfo_get env tokens)\<rparr>) (info_email d)
                         | None \<Rightarrow>
                             (Inr (c\<lparr>credentials := snd (userinfo_get env tokens)\<rparr>),
                              w\<lparr>oauth2Client :=
                                   Some (c\<lparr>credentials := snd (userinfo_get env tokens)\<rparr>),
                                credentialFiles :=
                                   (credentialFiles w)(info_email d \<mapsto> snd (userinfo_get env tokens)),
                                fileWrites :=
                                   fileWrites w @ [(info_email d, snd (userinfo_get env tokens))]\<rparr>))
                   else (case credentialFiles w (info_email d) of
                           None \<Rightarrow>
                             exchange_failure c st w
                               (c\<lparr>credentials := snd (userinfo_get env tokens)\<rparr>) (info_email d)
                         | Some s \<Rightarrow>
                             if truthy (refresh_token s)
                             then (Inr (c\<lparr>credentials := s\<rparr>),
                                   w\<lparr>oauth2Client := Some (c\<lparr>credentials := s\<rparr>)\<rparr>)
                             else exchange_failure c st w (c\<lparr>credentials := s\<rparr>) (info_email d)))))"
proof (cases "oauth2Client w")
  case None
  then show ?thesis
    by (simp add: getCredentials_def exchangeCode_def getCredentials_catch_def
          getAuthorizationUrl_None)
next
  case (Some c)
  show ?thesis
  proof (cases "getToken env code")
    case None
    with Some show ?thesis
      by (simp add: getCredentials_def exchangeCode_def getCredentials_catch_Some)
  next
    case tok: (Some tokens)
    obtain reply creds where ui: "userinfo_get env tokens = (reply, creds)"
      by (cases "userinfo_get env tokens")
    have ex: "exchangeCode env code w =
        (Inr (c\<lparr>credentials := tokens\<rparr>), w\<lparr>oauth2Client := Some (c\<lparr>credentials := tokens\<rparr>)\<rparr>)"
      using Some tok by (simp add: exchangeCode_def Let_def)
    show ?thesis
    proof (cases reply)
      case (ApiFailure m)
      with Some tok ui ex show ?thesis
        by (simp add: getCredentials_def getUserInfo_def Let_def getCredentials_catch_Some
              exchange_failure_def)
    next
      case (Data d)
      show ?thesis
      proof (cases "truthy (info_id d)")
        case False
        with Data Some tok ui ex show ?thesis
          by (simp add: getCredentials_def getUserInfo_def Let_def getCredentials_catch_Some
                exchange_failure_def)
      next
        case True
        show ?thesis
        proof (cases "truthy (refresh_token creds)")
          case fresh: True
          with True Data Some tok ui ex show ?thesis
            by (simp add: getCredentials_def getUserInfo_def Let_def getCredentials_catch_Some
                  exchange_failure_def storeCredentials_def split: option.splits)
        next
          case stale: False
          with True Data Some tok ui ex show ?thesis
            by (simp add: getCredentials_def getUserInfo_def Let_def getCredentials_catch_Some
                  exchange_failure_def getStoredCredentials_def split: option.splits)
        qed
      qed
    qed
  qed
qed

lemma exchange_failure_simps [simp]:
  "fst (exchange_failure c st w held hint) = Inl (NoRefreshTokenError (auth_url c st hint))"
  "credentialFiles (snd (exchange_failure c st w held hint)) = credentialFiles w"
  "fileWrites (snd (exchange_failure c st w held hint)) = fileWrites w"
  "listening (snd (exchange_failure c st w held hint)) = listening w"
  "authUrls (snd (exchange_failure c st w held hint)) = authUrls w @ [auth_url c st hint]"
  "oauth2Client (snd (exchange_failure c st w held hint)) = Some held"
  "fatal (snd (exchange_failure c st w held hint)) = fatal w"
  by (simp_all add: exchange_failure_def)

lemma exchange_failure_not_Inr [simp]:
  "exchange_failure c st w held hint \<noteq> (Inr x, w')"
  by (simp add: exchange_failure_def)


lemma example_exchange_ok:
  "getCredentials example_env (QString ''ok'') ''{}'' (example_world files) =
     (Inr (example_client\<lparr>credentials := example_tokens\<rparr>),
      (example_world files)\<lparr>oauth2Client := Some (example_client\<lparr>credentials := example_tokens\<rparr>),
         credentialFiles := files(''b@example.com'' \<mapsto> example_tokens),
         fileWrites := [(''b@example.com'', example_tokens)]\<rparr>)"
  by (simp add: getCredentials_flat)



text \<open>
  Claim C10. A run of \<open>getCredentials\<close> either writes no credentials file at all, or it
  writes exactly one, and what it writes are the freshly exchanged credentials (as the
  client holds them after the identity was resolved), which contain a refresh token.
\<close>

theorem exchange_only_writes_refresh_tokens:
  "(fileWrites (snd (getCredentials env code st w)) = fileWrites w
      \<and> credentialFiles (snd (getCredentials env code st w)) = credentialFiles w)
   \<or> (\<exists>tokens k. getToken env code = Some tokens
        \<and> truthy (refresh_token (snd (userinfo_get env tokens)))
        \<and> fileWrites (snd (getCredentials env code st w)) =
            fileWrites w @ [(k, snd (userinfo_get env tokens))]
        \<and> credentialFiles (snd (getCredentials env code st w)) =
            (credentialFiles w)(k \<mapsto> snd (userinfo_get env tokens)))"
  unfolding getCredentials_flat
  by (auto simp: Let_def split: option.splits UserinfoReply.splits)

theorem exchange_only_writes_refresh_tokens_witness:
  "fileWrites (snd (getCredentials example_env (QString ''ok'') ''{}'' (example_world Map.empty))) =
     [(''b@example.com'', example_tokens)]
   \<and> truthy (refresh_token example_tokens)
   \<and> fileWrites (snd (getCredentials example_env (QString ''once'') ''{}'' (example_world Map.empty))) = []"
  using exchange_only_writes_refresh_tokens
          [of example_env "QString ''ok''" "''{}''" "example_world Map.empty"]
        exchange_only_writes_refresh_tokens
          [of example_env "QString ''once''" "''{}''" "example_world Map.empty"]
  by (simp add: getCredentials_flat exchange_failure_def)

text \<open>
  Claim C3. Let the exchange succeed with tokens that lack a refresh token, and let the
  identity be resolved (the library leaving the absent refresh token absent). If the
  credentials file of the resolved email holds a refresh token, \<open>getCredentials\<close> returns
  the client with those stored credentials and changes nothing else. If there is no such
  file, or the file holds no refresh token, it fails with \<open>NoRefreshTokenError\<close>; the URL
  in the error was generated in this very call (it is the URL appended to the generated
  ones), it is the URL \<open>getAuthorizationUrl\<close> returns for the resolved email in the world
  reached, and it carries the client's id and redirect URI, offline access, forced consent,
  the required scopes and the resolved email as login hint.
\<close>

theorem getCredentials_without_refresh_token:
  assumes init: "oauth2Client w = Some c"
    and tok: "getToken env code = Some tokens"
    and norefresh: "\<not> truthy (refresh_token tokens)"
    and ident: "userinfo_get env tokens = (Data d, creds)" "truthy (info_id d)"
    and kept: "refresh_token creds = refresh_token tokens"
  shows "(\<forall>stored. credentialFiles w (info_email d) = Some stored \<and> truthy (refresh_token stored) \<longrightarrow>
            getCredentials env code st w =
              (Inr (c\<lparr>credentials := stored\<rparr>),
               w\<lparr>oauth2Client := Some (c\<lparr>credentials := stored\<rparr>)\<rparr>))
       \<and> ((credentialFiles w (info_email d) = None
            \<or> (\<exists>stored. credentialFiles w (info_email d) = Some stored
                  \<and> \<not> truthy (refresh_token stored))) \<longrightarrow>
            fst (getCredentials env code st w) =
              Inl (NoRefreshTokenError (auth_url c st (info_email d)))
          \<and> authUrls (snd (getCredentials env code st w)) =
              authUrls w @ [auth_url c st (info_email d)]
          \<and> credentialFiles (snd (getCredentials env code st w)) = credentialFiles w
          \<and> fst (getAuthorizationUrl (info_email d) st (snd (getCredentials env code st w))) =
              Inr (auth_url c st (info_email d))
          \<and> auth_url c st (info_email d) =
              \<lparr>response_type = ''code'', url_client_id = clientId c,
               redirect_uri = redirectUri c, access_type = ''offline'', url_scope = SCOPES,
               url_state = st, prompt = ''consent'', login_hint = info_email d\<rparr>)"
proof (intro conjI allI impI)
  fix stored
  assume "credentialFiles w (info_email d) = Some stored \<and> truthy (refresh_token stored)"
  then show "getCredentials env code st w =
      (Inr (c\<lparr>credentials := stored\<rparr>), w\<lparr>oauth2Client := Some (c\<lparr>credentials := stored\<rparr>)\<rparr>)"
    using assms by (simp add: getCredentials_flat)
next
  assume none: "credentialFiles w (info_email d) = None
     \<or> (\<exists>stored. credentialFiles w (info_email d) = Some stored \<and> \<not> truthy (refresh_token stored))"
  then obtain x where res:
    "getCredentials env code st w =
       exchange_failure c st w (c\<lparr>credentials := x\<rparr>) (info_email d)"
    using assms by (auto simp: getCredentials_flat)
  show "fst (getCredentials env code st w) = Inl (NoRefreshTokenError (auth_url c st (info_email d)))"
    by (simp add: res)
  show "authUrls (snd (getCredentials env code st w)) = authUrls w @ [auth_url c st (info_email d)]"
    by (simp add: res)
  show "credentialFiles (snd (getCredentials env code st w)) = credentialFiles w"
    by (simp add: res)
  have "oauth2Client (snd (getCredentials env code st w)) = Some (c\<lparr>credentials := x\<rparr>)"
    by (simp add: res)
  then show "fst (getAuthorizationUrl (info_email d) st (snd (getCredentials env code st w))) =
      Inr (auth_url c st (info_email d))"
    by (simp add: getAuthorizationUrl_Some)
next
  show "auth_url c st (info_email d) =
      \<lparr>response_type = ''code'', url_client_id = clientId c,
       redirect_uri = redirectUri c, access_type = ''offline'', url_scope = SCOPES,
       url_state = st, prompt = ''consent'', login_hint = info_email d\<rparr>"
    by (rule auth_url_fields)
qed

theorem getCredentials_without_refresh_token_witness:
  "fst (getCredentials example_env (QString ''once'') ''{}''
          (example_world [''b@example.com'' \<mapsto> example_tokens])) =
     Inr (example_client\<lparr>credentials := example_tokens\<rparr>)
   \<and> fst (getCredentials example_env (QString ''once'') ''{}'' (example_world Map.empty)) =
     Inl (NoRefreshTokenError (auth_url example_client ''{}'' ''b@example.com''))
   \<and> login_hint (auth_url example_client ''{}'' ''b@example.com'') = ''b@example.com''"
proof -
  have id: "userinfo_get example_env (example_tokens\<lparr>refresh_token := None\<rparr>) =
      (Data example_identity, example_tokens\<lparr>refresh_token := None\<rparr>)"
    by simp
  note inst = getCredentials_without_refresh_token
    [where env = example_env and code = "QString ''once''" and c = example_client
       and tokens = "example_tokens\<lparr>refresh_token := None\<rparr>" and d = example_identity
       and creds = "example_tokens\<lparr>refresh_token := None\<rparr>" and st = "''{}''", OF _ _ _ id]
  show ?thesis
    using inst [of "example_world [''b@example.com'' \<mapsto> example_tokens]"]
          inst [of "example_world Map.empty"]
    by (simp add: auth_url_fields)
qed

section \<open>The check made before a tool runs: \<open>setupOAuth2\<close>\<close>

lemma registered_nonempty:
  "list_ex P xs \<Longrightarrow> length xs \<noteq> 0"
  by (cases xs) simp_all

lemma setupOAuth2_underscoped:
  assumes "list_ex (\<lambda>a. email a = userId) (getAccountInfo w)"
    and "oauth2Client w = Some c" "credentialFiles w userId = Some r"
    and "\<not> credentialsHaveScopes (c\<lparr>credentials := r\<rparr>)"
  shows "setupOAuth2 env port userId w =
           startAuthFlow env port userId
             (w\<lparr>oauth2Client := Some (c\<lparr>credentials := r\<rparr>), logged := logged w @ [MissingScopes]\<rparr>)"
  using assms registered_nonempty [OF assms(1)]
  by (simp add: setupOAuth2_def Let_def getStoredCredentials_Some)

lemma setupOAuth2_scoped:
  assumes "list_ex (\<lambda>a. email a = userId) (getAccountInfo w)"
    and "oauth2Client w = Some c" "credentialFiles w userId = Some r"
    and "credentialsHaveScopes (c\<lparr>credentials := r\<rparr>)"
  shows "setupOAuth2 env port userId w =
           (let w2 = w\<lparr>oauth2Client := Some (c\<lparr>credentials := snd (userinfo_get env r)\<rparr>),
                       logged := (if expired env r then logged w @ [CredentialsExpired] else logged w)\<rparr>
            in case fst (userinfo_get env r) of
                 ApiFailure m \<Rightarrow> (Inl (Error m), w2)
               | Data d \<Rightarrow>
                   if \<not> truthy (info_id d) then (Inl NoUserIdError, w2)
                   else (case fs_write_error env userId of
                           Some m \<Rightarrow> (Inl (Error m), w2)
                         | None \<Rightarrow>
                             (Inr (), w2\<lparr>credentialFiles :=
                                           (credentialFiles w)(userId \<mapsto> snd (userinfo_get env r)),
                                         fileWrites :=
                                           fileWrites w @ [(userId, snd (userinfo_get env r))]\<rparr>)))"
  using assms registered_nonempty [OF assms(1)]
  by (cases "userinfo_get env r")
     (simp add: setupOAuth2_def Let_def getStoredCredentials_Some getUserInfo_def
        storeCredentials_def split: UserinfoReply.splits option.splits)

lemma credentialsHaveScopes_covers:
  "credentialsHaveScopes (c\<lparr>credentials := r\<rparr>) = (set SCOPES \<subseteq> set (scope r))"
  by (auto simp: credentialsHaveScopes_def list_all_iff)

text \<open>
  Claim C1. For an account of the registry with a stored credentials record (the client
  being initialized, as it is whenever tool calls are handled), \<open>setupOAuth2\<close> generates an
  authorization URL if and only if the granted scopes of the record do not cover the
  required scopes \<open>SCOPES\<close>. In that case it starts the flow: one URL with the account as
  login hint, one browser launch, and one listener on the configured port; when that port
  is already bound, no listener is added and the failure to bind, which nothing handles,
  ends the process, as does a browser command that cannot be started. When the scopes are
  covered it generates no URL, launches no browser and binds no listener, whatever the
  expiry date and the refresh token of the record are; an expiry date in the past only
  adds a line to the log. It then resolves the identity with the stored credentials and,
  if that succeeds and the file can be written, stores again what the client holds.
\<close>

theorem setupOAuth2_flow_iff_underscoped:
  assumes reg: "list_ex (\<lambda>a. email a = userId) (getAccountInfo w)"
    and init: "oauth2Client w = Some c"
    and stored: "credentialFiles w userId = Some r"
  shows "((authUrls (snd (setupOAuth2 env port userId w)) \<noteq> authUrls w)
            = (\<not> set SCOPES \<subseteq> set (scope r)))
       \<and> (\<not> set SCOPES \<subseteq> set (scope r) \<longrightarrow>
            fst (setupOAuth2 env port userId w) = Inr ()
          \<and> authUrls (snd (setupOAuth2 env port userId w)) = authUrls w @ [auth_url c ''{}'' userId]
          \<and> spawned (snd (setupOAuth2 env port userId w)) =
              spawned w @ [(fst (browser_command env), snd (browser_command env),
                            auth_url c ''{}'' userId)]
          \<and> listening (snd (setupOAuth2 env port userId w)) =
              (if port \<in> set (listening w) \<or> port_in_use env port then listening w
               else listening w @ [port])
          \<and> fatal (snd (setupOAuth2 env port userId w)) =
              fatal w
              @ (if \<not> spawn_throws env \<and> spawn_fails env
                 then [SpawnFailed (fst (browser_command env))] else [])
              @ (if port \<in> set (listening w) \<or> port_in_use env port
                 then [ListenFailed port] else []))
       \<and> (set SCOPES \<subseteq> set (scope r) \<longrightarrow>
            authUrls (snd (setupOAuth2 env port userId w)) = authUrls w
          \<and> spawned (snd (setupOAuth2 env port userId w)) = spawned w
          \<and> listening (snd (setupOAuth2 env port userId w)) = listening w
          \<and> fatal (snd (setupOAuth2 env port userId w)) = fatal w
          \<and> oauth2Client (snd (setupOAuth2 env port userId w)) =
              Some (c\<lparr>credentials := snd (userinfo_get env r)\<rparr>)
          \<and> logged (snd (setupOAuth2 env port userId w)) =
              (if expired env r then logged w @ [CredentialsExpired] else logged w)
          \<and> ((\<exists>d. fst (userinfo_get env r) = Data d \<and> truthy (info_id d))
               \<and> fs_write_error env userId = None \<longrightarrow>
              fst (setupOAuth2 env port userId w) = Inr ()
            \<and> credentialFiles (snd (setupOAuth2 env port userId w)) userId =
                Some (snd (userinfo_get env r))))"
proof (cases "set SCOPES \<subseteq> set (scope r)")
  case False
  then have under: "\<not> credentialsHaveScopes (c\<lparr>credentials := r\<rparr>)"
    by (simp add: credentialsHaveScopes_covers)
  let ?w1 = "w\<lparr>oauth2Client := Some (c\<lparr>credentials := r\<rparr>), logged := logged w @ [MissingScopes]\<rparr>"
  have eq: "setupOAuth2 env port userId w = startAuthFlow env port userId ?w1"
    using reg init stored under by (rule setupOAuth2_underscoped)
  have cl: "oauth2Client ?w1 = Some (c\<lparr>credentials := r\<rparr>)"
    by simp
  show ?thesis
    using False by (simp add: eq startAuthFlow_Some(1-8) [OF cl])
next
  case True
  then have covered: "credentialsHaveScopes (c\<lparr>credentials := r\<rparr>)"
    by (simp add: credentialsHaveScopes_covers)
  note eq = setupOAuth2_scoped [OF reg init stored covered, of env port]
  have 1: "authUrls (snd (setupOAuth2 env port userId w)) = authUrls w"
    and 2: "spawned (snd (setupOAuth2 env port userId w)) = spawned w"
    and 3: "listening (snd (setupOAuth2 env port userId w)) = listening w"
    and 4: "oauth2Client (snd (setupOAuth2 env port userId w)) =
              Some (c\<lparr>credentials := snd (userinfo_get env r)\<rparr>)"
    and 6: "logged (snd (setupOAuth2 env port userId w)) =
              (if expired env r then logged w @ [CredentialsExpired] else logged w)"
    and 7: "fatal (snd (setupOAuth2 env port userId w)) = fatal w"
    unfolding eq by (simp_all add: Let_def split: UserinfoReply.splits option.splits)
  have 5: "fst (setupOAuth2 env port userId w) = Inr ()
         \<and> credentialFiles (snd (setupOAuth2 env port userId w)) userId =
                Some (snd (userinfo_get env r))"
    if "(\<exists>d. fst (userinfo_get env r) = Data d \<and> truthy (info_id d))
               \<and> fs_write_error env userId = None"
    using that unfolding eq by (auto simp: Let_def)
  show ?thesis
    using True 1 2 3 4 5 6 7 by simp
qed

theorem setupOAuth2_flow_iff_underscoped_witness:
  "expired example_env example_tokens
   \<and> authUrls (snd (setupOAuth2 example_env 4100 ''a@example.com''
        (example_world [''a@example.com'' \<mapsto> example_tokens]))) = []
   \<and> listening (snd (setupOAuth2 example_env 4100 ''a@example.com''
        (example_world [''a@example.com'' \<mapsto> example_tokens]))) = []
   \<and> fst (setupOAuth2 example_env 4100 ''a@example.com''
        (example_world [''a@example.com'' \<mapsto> example_tokens])) = Inr ()
   \<and> authUrls (snd (setupOAuth2 example_env 4100 ''a@example.com''
        (example_world [''a@example.com'' \<mapsto> example_tokens\<lparr>scope := [''openid'']\<rparr>]))) =
       [auth_url example_client ''{}'' ''a@example.com'']
   \<and> listening (snd (setupOAuth2 example_env 4100 ''a@example.com''
        (example_world [''a@example.com'' \<mapsto> example_tokens\<lparr>scope := [''openid'']\<rparr>]))) =
       [4100]
   \<and> fatal (snd (setupOAuth2 example_env 4100 ''a@example.com''
        (example_world [''a@example.com'' \<mapsto> example_tokens\<lparr>scope := [''openid'']\<rparr>]))) = []
   \<and> listening (snd (setupOAuth2 example_env 4100 ''a@example.com''
        ((example_world [''a@example.com'' \<mapsto> example_tokens\<lparr>scope := [''openid'']\<rparr>])
           \<lparr>listening := [4100]\<rparr>))) = [4100]
   \<and> fatal (snd (setupOAuth2 example_env 4100 ''a@example.com''
        ((example_world [''a@example.com'' \<mapsto> example_tokens\<lparr>scope := [''openid'']\<rparr>])
           \<lparr>listening := [4100]\<rparr>))) = [ListenFailed 4100]"
proof -
  have reg: "list_ex (\<lambda>a. email a = ''a@example.com'') (getAccountInfo (example_world files))"
    and reg': "list_ex (\<lambda>a. email a = ''a@example.com'')
                 (getAccountInfo ((example_world files)\<lparr>listening := [4100]\<rparr>))"
    for files
    by (simp_all add: example_accounts_def getAccountInfo_def example_world_def)
  have covered: "set SCOPES \<subseteq> set (scope example_tokens)"
    by simp
  have under: "\<not> set SCOPES \<subseteq> set (scope (example_tokens\<lparr>scope := [''openid'']\<rparr>))"
    by (simp add: SCOPES_def)
  have late: "expired example_env example_tokens"
    by (simp add: expired_def)
  show ?thesis
    using setupOAuth2_flow_iff_underscoped
            [OF reg, of "[''a@example.com'' \<mapsto> example_tokens]" example_client example_tokens
               example_env 4100]
          setupOAuth2_flow_iff_underscoped
            [OF reg, of "[''a@example.com'' \<mapsto> example_tokens\<lparr>scope := [''openid'']\<rparr>]"
               example_client "example_tokens\<lparr>scope := [''openid'']\<rparr>" example_env 4100]
          setupOAuth2_flow_iff_underscoped
            [OF reg', of "[''a@example.com'' \<mapsto> example_tokens\<lparr>scope := [''openid'']\<rparr>]"
               example_client "example_tokens\<lparr>scope := [''openid'']\<rparr>" example_env 4100]
          covered under late
    by simp
qed

text \<open>
  Claim C6. For a user id that is not the email of an account of the registry,
  \<open>setupOAuth2\<close> fails with an error naming the missing configuration and leaves the world
  as it was; a tool call with that user id (other than the two tools that list the
  accounts) is answered with the error \<open>OAuth2 setup failed: ...\<close>, no tool is run, and the
  world changes by one line of the log only: no authorization URL is generated, no browser
  launched, no listener bound.
\<close>

theorem unregistered_account_rejected:
  assumes "\<not> list_ex (\<lambda>a. email a = userId) (getAccountInfo w)"
  shows "\<exists>m. (m = ''No accounts specified in .gauth.json''
             \<or> m = ''Account for email: '' @ userId @ '' not specified in .gauth.json'')
          \<and> setupOAuth2 env port userId w = (Inl (Error m), w)
          \<and> (\<not> list_accounts_tool name \<and> args ''user_id'' = Some userId \<and> userId \<noteq> [] \<longrightarrow>
               callTool tools env port name (Some args) w =
                 (IsError (''OAuth2 setup failed: '' @ m),
                  w\<lparr>logged := logged w @ [SetupFailed (Error m)]\<rparr>))"
proof (cases "length (getAccountInfo w) = 0")
  case True
  then have "setupOAuth2 env port userId w = (Inl (Error ''No accounts specified in .gauth.json''), w)"
    by (simp add: setupOAuth2_def Let_def)
  then show ?thesis
    by (simp add: callTool_def)
next
  case False
  then have "setupOAuth2 env port userId w =
      (Inl (Error (''Account for email: '' @ userId @ '' not specified in .gauth.json'')), w)"
    using assms by (simp add: setupOAuth2_def Let_def)
  then show ?thesis
    by (simp add: callTool_def)
qed

theorem unregistered_account_rejected_witness:
  "callTool example_tools example_env 4100 ''gmail_query_emails''
     (Some [''user_id'' \<mapsto> ''c@example.com'']) (example_world Map.empty) =
   (IsError (''OAuth2 setup failed: '' @
       ''Account for email: c@example.com not specified in .gauth.json''),
    (example_world Map.empty)\<lparr>logged :=
       [SetupFailed (Error ''Account for email: c@example.com not specified in .gauth.json'')]\<rparr>)"
proof -
  have unknown: "\<not> list_ex (\<lambda>a. email a = ''c@example.com'')
      (getAccountInfo (example_world Map.empty))"
    by (simp add: example_accounts_def)
  have tool: "\<not> list_accounts_tool ''gmail_query_emails''"
    by (simp add: list_accounts_tool_def)
  have direct: "setupOAuth2 example_env 4100 ''c@example.com'' (example_world Map.empty) =
      (Inl (Error ''Account for email: c@example.com not specified in .gauth.json''),
       example_world Map.empty)"
    by (simp add: setupOAuth2_def Let_def example_accounts_def)
  from tool unregistered_account_rejected
         [OF unknown, of example_env 4100 "''gmail_query_emails''"
            "[''user_id'' \<mapsto> ''c@example.com'']" example_tools]
  obtain m where "setupOAuth2 example_env 4100 ''c@example.com'' (example_world Map.empty) =
        (Inl (Error m), example_world Map.empty)"
    and "callTool example_tools example_env 4100 ''gmail_query_emails''
           (Some [''user_id'' \<mapsto> ''c@example.com'']) (example_world Map.empty) =
         (IsError (''OAuth2 setup failed: '' @ m),
          (example_world Map.empty)\<lparr>logged :=
             logged (example_world Map.empty) @ [SetupFailed (Error m)]\<rparr>)"
    by auto
  with direct show ?thesis
    by simp
qed

section \<open>Bulk operations\<close>

lemma promise_all_rejected:
  "list_ex isl rs \<Longrightarrow> isl (promise_all rs)"
  by (induction rs rule: promise_all.induct) (auto split: sum.splits)

lemma promise_all_fulfilled:
  "list_all (\<lambda>r. \<not> isl r) rs \<Longrightarrow> promise_all rs = Inr (map projr rs)"
  by (induction rs rule: promise_all.induct) auto

lemma promise_all_reason:
  "promise_all rs = Inl e \<Longrightarrow> Inl e \<in> set rs"
  by (induction rs rule: promise_all.induct) (auto split: sum.splits)

lemma isl_get_one_email:
  "isl (get_one_email api userId i) = isl (messages_get api userId i)"
  by (cases "messages_get api userId i") (simp_all add: get_one_email_def)

lemma isl_archive_one:
  "isl (archive_one api userId i) = (messages_modify api userId i \<noteq> None)"
  by (cases "messages_modify api userId i") (simp_all add: archive_one_def)

lemma save_one_result:
  "isl (attachments_get api userId (message_id i) (part_id i)) \<Longrightarrow>
   isl (fst (save_one api write_error userId i disk))"
  by (cases "attachments_get api userId (message_id i) (part_id i)")
     (simp_all add: save_one_def Let_def)

lemma save_all_rejected:
  "list_ex (\<lambda>i. isl (attachments_get api userId (message_id i) (part_id i))) requests \<Longrightarrow>
   list_ex isl (fst (save_all api write_error userId requests disk))"
proof (induction requests arbitrary: disk)
  case Nil
  then show ?case by simp
next
  case (Cons i rest)
  obtain r disk1 where one: "save_one api write_error userId i disk = (r, disk1)"
    by (cases "save_one api write_error userId i disk")
  obtain rs disk2 where rest: "save_all api write_error userId rest disk1 = (rs, disk2)"
    by (cases "save_all api write_error userId rest disk1")
  show ?case
  proof (cases "isl (attachments_get api userId (message_id i) (part_id i))")
    case True
    from save_one_result [OF this, of write_error disk] one have "isl r"
      by simp
    then show ?thesis
      by (simp add: one rest)
  next
    case False
    with Cons.prems
    have "list_ex (\<lambda>i. isl (attachments_get api userId (message_id i) (part_id i))) rest"
      by simp
    from Cons.IH [OF this, of disk1] rest show ?thesis
      by (simp add: one)
  qed
qed

lemma decode_example: "decodeBase64Data ''-_8'' = [0xFB, 0xFF]"
  by code_simp

text \<open>
  Claim C7. If the call for one of the ids of a batch is rejected, \<open>bulkGetEmails\<close>,
  \<open>bulkArchive\<close> and \<open>bulkSaveAttachments\<close> are rejected as a whole: the result is an
  error, not a list holding the results for the ids that succeeded. (What the calls that
  succeeded have done stays done: in the example below the first attachment is on disk
  although the batch is rejected.)
\<close>

theorem bulk_fails_when_one_call_fails:
  "(list_ex (\<lambda>i. isl (messages_get api userId i)) ids \<longrightarrow>
      isl (bulkGetEmails api (Some userId) (Some ids)))
   \<and> (list_ex (\<lambda>i. messages_modify api userId i \<noteq> None) ids \<longrightarrow>
      isl (bulkArchive api (Some userId) (Some ids)))
   \<and> (list_ex (\<lambda>i. isl (attachments_get api userId (message_id i) (part_id i))) requests \<longrightarrow>
      isl (fst (bulkSaveAttachments api write_error (Some userId) (Some requests) disk)))"
proof (intro conjI impI)
  assume "list_ex (\<lambda>i. isl (messages_get api userId i)) ids"
  then have "list_ex isl (map (get_one_email api userId) ids)"
    by (simp add: list_ex_iff isl_get_one_email)
  then have "isl (promise_all (map (get_one_email api userId) ids))"
    by (rule promise_all_rejected)
  then show "isl (bulkGetEmails api (Some userId) (Some ids))"
    by (simp add: bulkGetEmails_def)
next
  assume "list_ex (\<lambda>i. messages_modify api userId i \<noteq> None) ids"
  then have "list_ex isl (map (archive_one api userId) ids)"
    by (simp add: list_ex_iff isl_archive_one)
  then have "isl (promise_all (map (archive_one api userId) ids))"
    by (rule promise_all_rejected)
  then show "isl (bulkArchive api (Some userId) (Some ids))"
    by (auto simp: bulkArchive_def split: sum.splits)
next
  assume "list_ex (\<lambda>i. isl (attachments_get api userId (message_id i) (part_id i))) requests"
  then have "list_ex isl (fst (save_all api write_error userId requests disk))"
    by (rule save_all_rejected)
  then have "isl (promise_all (fst (save_all api write_error userId requests disk)))"
    by (rule promise_all_rejected)
  then show "isl (fst (bulkSaveAttachments api write_error (Some userId) (Some requests) disk))"
    by (cases "save_all api write_error userId requests disk")
       (simp add: bulkSaveAttachments_def)
qed

theorem bulk_fails_when_one_call_fails_witness:
  "bulkGetEmails example_api (Some ''a@example.com'') (Some [''1'', ''2'', ''3'']) = Inl ''Not Found''
   \<and> bulkArchive example_api (Some ''a@example.com'') (Some [''1'', ''2'', ''3'']) = Inl ''Not Found''
   \<and> bulkArchive example_api (Some ''a@example.com'') (Some [''1'', ''3'']) =
       Inr ''Messages 1, 3 archived successfully''
   \<and> fst (bulkSaveAttachments example_api (\<lambda>path. None) (Some ''a@example.com'')
            (Some [example_request ''1'', example_request ''2'']) Map.empty) = Inl ''Not Found''
   \<and> snd (bulkSaveAttachments example_api (\<lambda>path. None) (Some ''a@example.com'')
            (Some [example_request ''1'', example_request ''2'']) Map.empty) ''/tmp/1'' =
       Some [0xFB, 0xFF]"
proof -
  show ?thesis
    using bulk_fails_when_one_call_fails
            [of example_api "''a@example.com''" "[''1'', ''2'', ''3'']"
                "[example_request ''1'', example_request ''2'']" "\<lambda>path. None" Map.empty]
    by (simp add: bulkGetEmails_def bulkArchive_def get_one_email_def archive_one_def
          example_api_def bulkSaveAttachments_def save_one_def example_request_def Let_def
          decode_example)
qed

text \<open>Conversely, a non-empty batch whose calls all succeed returns one result per id.\<close>

lemma bulk_succeeds_when_all_calls_succeed:
  assumes "userId \<noteq> []" "ids \<noteq> []"
  shows "list_all (\<lambda>i. \<not> isl (messages_get api userId i)) ids \<Longrightarrow>
           bulkGetEmails api (Some userId) (Some ids) =
             Inr (map (\<lambda>i. email_result (projr (messages_get api userId i))) ids)"
    and "list_all (\<lambda>i. messages_modify api userId i = None) ids \<Longrightarrow>
           bulkArchive api (Some userId) (Some ids) =
             Inr (''Messages '' @ join '', '' ids @ '' archived successfully'')"
proof -
  assume ok: "list_all (\<lambda>i. \<not> isl (messages_get api userId i)) ids"
  then have "list_all (\<lambda>r. \<not> isl r) (map (get_one_email api userId) ids)"
    by (simp add: list_all_iff isl_get_one_email)
  then have "promise_all (map (get_one_email api userId) ids) =
      Inr (map projr (map (get_one_email api userId) ids))"
    by (rule promise_all_fulfilled)
  moreover have "map projr (map (get_one_email api userId) ids) =
      map (\<lambda>i. email_result (projr (messages_get api userId i))) ids"
    using ok by (auto simp: list_all_iff get_one_email_def split: sum.splits)
  ultimately show "bulkGetEmails api (Some userId) (Some ids) =
      Inr (map (\<lambda>i. email_result (projr (messages_get api userId i))) ids)"
    using assms by (simp add: bulkGetEmails_def)
next
  assume ok: "list_all (\<lambda>i. messages_modify api userId i = None) ids"
  then have "list_all (\<lambda>r. \<not> isl r) (map (archive_one api userId) ids)"
    by (simp add: list_all_iff isl_archive_one)
  then have "promise_all (map (archive_one api userId) ids) =
      Inr (map projr (map (archive_one api userId) ids))"
    by (rule promise_all_fulfilled)
  moreover have "map projr (map (archive_one api userId) ids) = ids"
    using ok by (induction ids) (simp_all add: archive_one_def)
  ultimately show "bulkArchive api (Some userId) (Some ids) =
      Inr (''Messages '' @ join '', '' ids @ '' archived successfully'')"
    using assms by (simp add: bulkArchive_def)
qed

section \<open>The callback listener: \<open>handleRequest\<close> and \<open>serve\<close>\<close>

lemma sent_simps [simp]:
  "req_method req = ''GET'' \<Longrightarrow> sent req res = res"
  "sent req \<lparr>statusCode = n, body = []\<rparr> = \<lparr>statusCode = n, body = []\<rparr>"
  by (simp_all add: sent_def)

lemma handleRequest_code:
  assumes "pathname req = Some ''/code''" "query_code req = Some code" "qtruthy code"
  shows "handleRequest env port req w =
     (case getCredentials env code ''{}'' w of
        (Inl e, w1) \<Rightarrow> (confirmation, Inl e, w1)
      | (Inr client, w1) \<Rightarrow> (confirmation, Inr (), w1\<lparr>listening := remove1 port (listening w1)\<rparr>))"
  using assms
  by (simp add: handleRequest_def confirmation_def Let_def split: prod.splits sum.splits)

lemma serve_Some:
  "serve env port req w = Some x \<Longrightarrow>
   alive w \<and> port \<in> set (listening w) \<and> req_method req \<noteq> ''CONNECT''"
  by (simp add: serve_def split: if_splits)



lemma serve_code:
  assumes "pathname req = Some ''/code''" "query_code req = Some code" "qtruthy code"
    and "alive w" "port \<in> set (listening w)" "req_method req \<noteq> ''CONNECT''"
  shows "serve env port req w =
     (case getCredentials env code ''{}'' w of
        (Inl e, w1) \<Rightarrow>
          Some (sent req confirmation, Inl e, w1\<lparr>fatal := fatal w1 @ [UnhandledRejection e]\<rparr>)
      | (Inr client, w1) \<Rightarrow>
          Some (sent req confirmation, Inr (), w1\<lparr>listening := remove1 port (listening w1)\<rparr>))"
  using assms
  by (simp add: serve_def handleRequest_code split: prod.splits sum.splits)

lemma serve_rejected:
  assumes "alive w" "port \<in> set (listening w)" "req_method req \<noteq> ''CONNECT''"
  shows "pathname req = Some ''/code'' \<Longrightarrow>
           query_code req = None \<or> (\<exists>code. query_code req = Some code \<and> \<not> qtruthy code) \<Longrightarrow>
           serve env port req w = Some (\<lparr>statusCode = 400, body = []\<rparr>, Inr (), w)"
    and "pathname req \<noteq> Some ''/code'' \<Longrightarrow>
           serve env port req w = Some (\<lparr>statusCode = 404, body = []\<rparr>, Inr (), w)"
  using assms by (auto simp: serve_def handleRequest_def)

lemma serve_redirect:
  assumes "correct_redirect req" "alive w" "port \<in> set (listening w)"
  shows "\<exists>r w'. serve env port req w = Some (confirmation, r, w')"
proof -
  from assms(1) obtain code where req: "req_method req = ''GET''" "pathname req = Some ''/code''"
      "query_code req = Some code" "qtruthy code"
    by (auto simp: correct_redirect_def split: option.splits)
  then have "req_method req \<noteq> ''CONNECT''"
    by simp
  from serve_code [OF req(2-4) assms(2,3) this, of env] req(1) show ?thesis
    by (cases "getCredentials env code ''{}'' w") (auto split: sum.splits)
qed


subsection \<open>The example after start-up\<close>

lemma example_start:
  "start example_env p
     (boot (GauthInstalled ''id'' ''secret'') (Some example_accounts) Map.empty) =
   (Inr (),
    \<lparr>oauth2Client = Some example_client, gauthFile = GauthInstalled ''id'' ''secret'',
     accountsFile = Some example_accounts, credentialFiles = Map.empty, fileWrites = [],
     authUrls = [auth_url example_client ''{}'' ''a@example.com''],
     spawned = [(''xdg-open'', [], auth_url example_client ''{}'' ''a@example.com'')],
     listening = [p],
     logged = [NoCredentials ''a@example.com'',
               FlowStarting ''a@example.com'' (auth_url example_client ''{}'' ''a@example.com''),
               CallbackListening p],
     fatal = []\<rparr>)"
proof -
  let ?b = "boot (GauthInstalled ''id'' ''secret'') (Some example_accounts) Map.empty"
  let ?started =
    "\<lparr>oauth2Client = Some example_client, gauthFile = GauthInstalled ''id'' ''secret'',
      accountsFile = Some example_accounts, credentialFiles = Map.empty, fileWrites = [],
      authUrls = [auth_url example_client ''{}'' ''a@example.com''],
      spawned = [(''xdg-open'', [], auth_url example_client ''{}'' ''a@example.com'')],
      listening = [p],
      logged = [NoCredentials ''a@example.com'',
                FlowStarting ''a@example.com'' (auth_url example_client ''{}'' ''a@example.com''),
                CallbackListening p],
      fatal = []\<rparr>"
  let ?w1 = "?b\<lparr>oauth2Client := Some example_client\<rparr>"
  let ?w2 = "?b\<lparr>oauth2Client := Some example_client,
                 logged := logged ?b @ [NoCredentials ''a@example.com'']\<rparr>"
  have init: "initialize ?b = (Inr (), ?w1)"
    by (simp add: initialize_def boot_def example_client_def)
  have acc: "getAccountInfo ?w1 = example_accounts"
    by (simp add: getAccountInfo_def boot_def)
  have gs: "getStoredCredentials ''a@example.com'' ?w1 = (None, ?w1)"
    by (simp add: getStoredCredentials_def boot_def)
  have flow: "startAuthFlow example_env p ''a@example.com'' ?w2 = (Inr (), ?started)"
    by (simp add: startAuthFlow_def getAuthorizationUrl_def auth_url_def Let_def listen_def
          boot_def)
  have "start_accounts example_env p
          [\<lparr>email = ''a@example.com'', accountType = ''personal'', extraInfo = []\<rparr>] ?w1 =
        (Inr (), ?started)"
    by (simp add: gs flow alive_def)
  then have accounts: "start_accounts example_env p example_accounts ?w1 = (Inr (), ?started)"
    by (simp only: example_accounts_def)
  show ?thesis
    by (simp add: start_def init acc accounts)
qed

lemma example_started_simps [simp]:
  "oauth2Client example_started = Some example_client"
  "credentialFiles example_started = Map.empty"
  "fileWrites example_started = []"
  "authUrls example_started = [auth_url example_client ''{}'' ''a@example.com'']"
  "listening example_started = [4100]"
  "fatal example_started = []"
  "alive example_started"
  by (simp_all add: example_started_def main_def example_start alive_def)



lemma example_served_ok:
  "serve example_env 4100 (code_request ''ok'') example_started =
     Some (confirmation, Inr (), example_authorized)"
proof -
  have "getCredentials example_env (QString ''ok'') ''{}'' example_started =
      (Inr (example_client\<lparr>credentials := example_tokens\<rparr>),
       example_started\<lparr>oauth2Client := Some (example_client\<lparr>credentials := example_tokens\<rparr>),
          credentialFiles := [''b@example.com'' \<mapsto> example_tokens],
          fileWrites := [(''b@example.com'', example_tokens)]\<rparr>)"
    by (simp add: getCredentials_flat)
  then show ?thesis
    by (simp add: serve_code [of _ "QString ''ok''"] code_request_def example_authorized_def)
qed

text \<open>
  Claim C5 as stated answers every request on the callback path that carries a \<open>code\<close>
  parameter with 200. The handler tests \<open>!query.code\<close>, which also holds for the empty
  string: the request \<open>GET /code?code=\<close> carries the parameter and is answered 400.
\<close>

theorem empty_code_is_answered_400:
  "pathname (code_request []) = Some ''/code''
   \<and> query_code (code_request []) = Some (QString [])
   \<and> req_method (code_request []) = ''GET''
   \<and> fst (handleRequest example_env 4100 (code_request []) (example_world Map.empty)) =
       \<lparr>statusCode = 400, body = []\<rparr>
   \<and> statusCode (fst (handleRequest example_env 4100 (code_request [])
        (example_world Map.empty))) \<noteq> 200"
  by (simp add: code_request_def handleRequest_def)

text \<open>
  Claim C5, amended to a code that is not empty. Of the requests that the HTTP server of a
  bound listener hands to the handler: a \<open>GET\<close> on the callback path whose \<open>code\<close>
  parameter is present and not the empty string is answered with status 200 and the
  confirmation body; a request on the callback path whose \<open>code\<close> parameter is absent or
  empty is answered 400; a request on any other path is answered 404. A response other
  than 200 changes nothing in the world: the process is alive, the listener still bound,
  and a correct redirect sent afterwards is answered with the confirmation.
\<close>

theorem serve_status:
  assumes "serve env port req w = Some (res, r, w')"
  shows "(req_method req = ''GET'' \<and> pathname req = Some ''/code''
            \<and> query_code req = Some code \<and> qtruthy code \<longrightarrow>
          res = confirmation)
       \<and> (pathname req = Some ''/code''
            \<and> (query_code req = None \<or> (\<exists>code. query_code req = Some code \<and> \<not> qtruthy code)) \<longrightarrow>
          res = \<lparr>statusCode = 400, body = []\<rparr> \<and> r = Inr () \<and> w' = w)
       \<and> (pathname req \<noteq> Some ''/code'' \<longrightarrow>
          res = \<lparr>statusCode = 404, body = []\<rparr> \<and> r = Inr () \<and> w' = w)
       \<and> (statusCode res \<noteq> 200 \<longrightarrow>
          w' = w \<and> alive w' \<and> port \<in> set (listening w')
          \<and> (correct_redirect req' \<longrightarrow>
               (\<exists>r' w''. serve env' port req' w' = Some (confirmation, r', w''))))"
proof -
  from assms have up: "alive w" "port \<in> set (listening w)" "req_method req \<noteq> ''CONNECT''"
    using serve_Some by blast+
  have ok: "res = sent req confirmation"
    if "pathname req = Some ''/code''" "query_code req = Some code" "qtruthy code" for code
    using serve_code [OF that up, of env] assms
    by (cases "getCredentials env code ''{}'' w") (auto split: sum.splits)
  have no_code: "res = \<lparr>statusCode = 400, body = []\<rparr> \<and> r = Inr () \<and> w' = w"
    if "pathname req = Some ''/code''"
       "query_code req = None \<or> (\<exists>code. query_code req = Some code \<and> \<not> qtruthy code)"
    using serve_rejected(1) [OF up that, of env] assms by simp
  have no_path: "res = \<lparr>statusCode = 404, body = []\<rparr> \<and> r = Inr () \<and> w' = w"
    if "pathname req \<noteq> Some ''/code''"
    using serve_rejected(2) [OF up that, of env] assms by simp
  have kept: "w' = w" if "statusCode res \<noteq> 200"
  proof (cases "pathname req = Some ''/code''")
    case False
    then show ?thesis using no_path by simp
  next
    case True
    show ?thesis
    proof (cases "query_code req")
      case None
      with True no_code show ?thesis by simp
    next
      case (Some code)
      show ?thesis
      proof (cases "qtruthy code")
        case False
        with True Some no_code show ?thesis by simp
      next
        case yes: True
        from ok [OF True Some yes] that show ?thesis
          by (simp add: sent_def confirmation_def split: if_splits)
      qed
    qed
  qed
  show ?thesis
  proof (intro conjI impI)
    assume "req_method req = ''GET'' \<and> pathname req = Some ''/code''
        \<and> query_code req = Some code \<and> qtruthy code"
    then show "res = confirmation"
      using ok [of code] by simp
  next
    assume "pathname req = Some ''/code''
        \<and> (query_code req = None \<or> (\<exists>code. query_code req = Some code \<and> \<not> qtruthy code))"
    then show "res = \<lparr>statusCode = 400, body = []\<rparr>" "r = Inr ()" "w' = w"
      using no_code by simp_all
  next
    assume "pathname req \<noteq> Some ''/code''"
    then show "res = \<lparr>statusCode = 404, body = []\<rparr>" "r = Inr ()" "w' = w"
      using no_path by simp_all
  next
    assume other: "statusCode res \<noteq> 200"
    show "w' = w"
      using kept [OF other] .
    show "alive w'" "port \<in> set (listening w')"
      using kept [OF other] up by simp_all
    assume "correct_redirect req'"
    then show "\<exists>r' w''. serve env' port req' w' = Some (confirmation, r', w'')"
      using kept [OF other] up by (simp add: serve_redirect)
  qed
qed

theorem serve_status_witness:
  "serve example_env 4100 (code_request ''ok'') example_started =
     Some (confirmation, Inr (), example_authorized)
   \<and> serve example_env 4100
        \<lparr>req_method = ''GET'', pathname = Some ''/code'', query_code = None\<rparr> example_started =
       Some (\<lparr>statusCode = 400, body = []\<rparr>, Inr (), example_started)
   \<and> serve example_env 4100
        \<lparr>req_method = ''GET'', pathname = Some ''/favicon.ico'', query_code = None\<rparr>
        example_started =
       Some (\<lparr>statusCode = 404, body = []\<rparr>, Inr (), example_started)
   \<and> alive example_started
   \<and> listening example_started = [4100]"
proof -
  let ?nocode = "\<lparr>req_method = ''GET'', pathname = Some ''/code'', query_code = None\<rparr>"
  let ?other = "\<lparr>req_method = ''GET'', pathname = Some ''/favicon.ico'', query_code = None\<rparr>"
  have nocode: "serve example_env 4100 ?nocode example_started =
      Some (\<lparr>statusCode = 400, body = []\<rparr>, Inr (), example_started)"
    by (simp add: serve_def handleRequest_def)
  have other: "serve example_env 4100 ?other example_started =
      Some (\<lparr>statusCode = 404, body = []\<rparr>, Inr (), example_started)"
    by (simp add: serve_def handleRequest_def)
  have redirect: "correct_redirect (code_request ''ok'')"
    by (simp add: correct_redirect_def code_request_def)
  from serve_status [OF example_served_ok, of "QString ''ok''" undefined undefined]
       serve_status [OF nocode, of undefined "code_request ''ok''" example_env]
       serve_status [OF other, of undefined "code_request ''ok''" example_env]
       redirect
  show ?thesis
    by (simp add: example_served_ok nocode other)
qed

section \<open>What holds in every world the server reaches\<close>

lemma flow_invariant_cong:
  "oauth2Client w' = oauth2Client w \<Longrightarrow> authUrls w' = authUrls w \<Longrightarrow> listening w' = listening w
   \<Longrightarrow> flow_invariant p w' = flow_invariant p w"
  by (simp add: flow_invariant_def client_redirect_fixed_def)

lemma flow_invariant_logged [simp]:
  "flow_invariant p (w\<lparr>logged := l\<rparr>) = flow_invariant p w"
  by (rule flow_invariant_cong) simp_all

lemma flow_invariant_fatal [simp]:
  "flow_invariant p (w\<lparr>fatal := f\<rparr>) = flow_invariant p w"
  by (rule flow_invariant_cong) simp_all

lemma flow_invariant_credentials:
  "flow_invariant p w \<Longrightarrow> oauth2Client w = Some c \<Longrightarrow>
   flow_invariant p (w\<lparr>oauth2Client := Some (c\<lparr>credentials := x\<rparr>)\<rparr>)"
  by (simp add: flow_invariant_def client_redirect_fixed_def)

lemma flow_invariant_boot: "flow_invariant p (boot gauth accounts files)"
  by (simp add: flow_invariant_def client_redirect_fixed_def boot_def)

lemma flow_invariant_initialize:
  "flow_invariant p w \<Longrightarrow> flow_invariant p (snd (initialize w))"
  by (simp add: flow_invariant_def client_redirect_fixed_def initialize_def split: GauthFile.splits)

lemma flow_invariant_getStoredCredentials:
  assumes "flow_invariant p w"
  shows "flow_invariant p (snd (getStoredCredentials u w))"
proof (cases "oauth2Client w")
  case None
  then show ?thesis using assms by (simp add: getStoredCredentials_def)
next
  case (Some c)
  then show ?thesis
    using assms
    by (simp add: getStoredCredentials_def flow_invariant_def client_redirect_fixed_def Let_def
          split: option.splits)
qed

lemma flow_invariant_startAuthFlow:
  assumes "flow_invariant p w"
  shows "flow_invariant p (snd (startAuthFlow env p u w))"
proof (cases "oauth2Client w")
  case None
  then show ?thesis using assms by (simp add: startAuthFlow_None)
next
  case (Some c)
  from assms Some show ?thesis
    by (simp add: flow_invariant_def client_redirect_fixed_def startAuthFlow_Some [OF Some]
          auth_url_fields)
qed

lemma flow_invariant_storeCredentials:
  "flow_invariant p w \<Longrightarrow> flow_invariant p (snd (storeCredentials env cl u w))"
  by (simp add: storeCredentials_def flow_invariant_def client_redirect_fixed_def
        split: option.splits)

lemma flow_invariant_setupOAuth2:
  assumes inv: "flow_invariant p w"
  shows "flow_invariant p (snd (setupOAuth2 env p u w))"
proof (cases "length (getAccountInfo w) = 0 \<or> \<not> list_ex (\<lambda>a. email a = u) (getAccountInfo w)")
  case True
  then show ?thesis using inv by (auto simp: setupOAuth2_def Let_def)
next
  case False
  obtain r w1 where gs: "getStoredCredentials u w = (r, w1)"
    by (cases "getStoredCredentials u w")
  have inv1: "flow_invariant p w1"
    using flow_invariant_getStoredCredentials [OF inv, of u] gs by simp
  show ?thesis
  proof (cases r)
    case None
    with False gs show ?thesis
      by (simp add: setupOAuth2_def Let_def flow_invariant_startAuthFlow [OF inv1])
  next
    case (Some sc)
    have cl: "oauth2Client w1 = Some sc"
      using getStoredCredentials_result [of u w sc w1] gs Some by simp
    show ?thesis
    proof (cases "credentialsHaveScopes sc")
      case no: False
      have "flow_invariant p (w1\<lparr>logged := logged w1 @ [MissingScopes]\<rparr>)"
        using inv1 by simp
      from flow_invariant_startAuthFlow [OF this] no False gs Some show ?thesis
        by (simp add: setupOAuth2_def Let_def)
    next
      case yes: True
      obtain res cl2 where ui: "getUserInfo env sc = (res, cl2)"
        by (cases "getUserInfo env sc")
      have cl2: "cl2 = sc\<lparr>credentials := snd (userinfo_get env (credentials sc))\<rparr>"
        using getUserInfo_client [of env sc] ui by simp
      define w2 where "w2 = (if expired env (credentials sc)
          then w1\<lparr>logged := logged w1 @ [CredentialsExpired]\<rparr> else w1)"
      have inv2: "flow_invariant p w2" and cl2': "oauth2Client w2 = Some sc"
        using inv1 cl by (simp_all add: w2_def)
      have inv3: "flow_invariant p (w2\<lparr>oauth2Client := Some cl2\<rparr>)"
        unfolding cl2 using inv2 cl2' by (rule flow_invariant_credentials)
      have "setupOAuth2 env p u w =
          (case res of Inl e \<Rightarrow> (Inl e, w2\<lparr>oauth2Client := Some cl2\<rparr>)
           | Inr userInfo \<Rightarrow> storeCredentials env cl2 u (w2\<lparr>oauth2Client := Some cl2\<rparr>))"
        using False gs Some yes ui
        by (simp add: setupOAuth2_def Let_def w2_def split: sum.splits)
      then show ?thesis
        using inv3 by (simp add: flow_invariant_storeCredentials split: sum.splits)
    qed
  qed
qed

lemma flow_invariant_getCredentials:
  assumes "flow_invariant p w"
  shows "flow_invariant p (snd (getCredentials env code st w))"
proof (cases "oauth2Client w")
  case None
  then show ?thesis using assms by (simp add: getCredentials_flat)
next
  case (Some c)
  then show ?thesis
    using assms unfolding getCredentials_flat
    by (simp add: flow_invariant_def client_redirect_fixed_def Let_def exchange_failure_def
          auth_url_fields split: option.splits UserinfoReply.splits)
qed

lemma list_all_remove1: "list_all P xs \<Longrightarrow> list_all P (remove1 x xs)"
  by (induction xs) auto

lemma flow_invariant_closed:
  "flow_invariant p w \<Longrightarrow> flow_invariant p (w\<lparr>listening := remove1 q (listening w)\<rparr>)"
  by (simp add: flow_invariant_def client_redirect_fixed_def list_all_remove1)

lemma flow_invariant_handleRequest:
  assumes "flow_invariant p w"
  shows "flow_invariant p (snd (snd (handleRequest env q req w)))"
proof -
  have "flow_invariant p w'" if "getCredentials env code ''{}'' w = (r, w')" for code r w'
    using flow_invariant_getCredentials [OF assms, of env code "''{}''"] that by simp
  then show ?thesis
    using assms
    by (auto simp: handleRequest_def Let_def flow_invariant_closed
        split: option.splits prod.splits sum.splits)
qed

lemma flow_invariant_serve:
  assumes "flow_invariant p w" "serve env q req w = Some (res, r, w')"
  shows "flow_invariant p w'"
  using flow_invariant_handleRequest [OF assms(1), of env q req] assms(2)
  by (auto simp: serve_def split: if_splits prod.splits sum.splits)

lemma flow_invariant_callTool:
  assumes "flow_invariant p w"
  shows "flow_invariant p (snd (callTool tools env p name arguments w))"
proof -
  have "flow_invariant p w'" if "setupOAuth2 env p u w = (r, w')" for u r w'
    using flow_invariant_setupOAuth2 [OF assms, of env u] that by simp
  then show ?thesis
    using assms
    by (auto simp: callTool_def toolOutcome_def split: option.splits prod.splits sum.splits)
qed

lemma flow_invariant_step:
  "flow_invariant p w \<Longrightarrow> flow_invariant p (step tools p ev w)"
proof (cases ev)
  case (Pair env e)
  assume inv: "flow_invariant p w"
  show ?thesis
  proof (cases e)
    case (CallTool name arguments)
    with Pair inv show ?thesis by (simp add: flow_invariant_callTool)
  next
    case (HttpRequest q req)
    show ?thesis
    proof (cases "serve env q req w")
      case None
      with Pair HttpRequest inv show ?thesis by simp
    next
      case (Some x)
      obtain res r w' where x: "x = (res, r, w')"
        by (cases x)
      from flow_invariant_serve [OF inv Some [unfolded x]] Pair HttpRequest Some x show ?thesis
        by simp
    qed
  qed
qed

lemma flow_invariant_run:
  "flow_invariant p w \<Longrightarrow> flow_invariant p (run tools p evs w)"
  by (induction evs arbitrary: w) (simp_all add: flow_invariant_step)

lemma flow_invariant_start_accounts:
  "flow_invariant p w \<Longrightarrow> flow_invariant p (snd (start_accounts env p accounts w))"
proof (induction accounts arbitrary: w)
  case Nil
  then show ?case by simp
next
  case (Cons account rest)
  obtain r w1 where gs: "getStoredCredentials (email account) w = (r, w1)"
    by (cases "getStoredCredentials (email account) w")
  have inv1: "flow_invariant p w1"
    using flow_invariant_getStoredCredentials [OF Cons.prems, of "email account"] gs by simp
  show ?case
  proof (cases r)
    case (Some creds)
    with gs inv1 show ?thesis by (simp add: Cons.IH)
  next
    case None
    let ?w = "w1\<lparr>logged := logged w1 @ [NoCredentials (email account)]\<rparr>"
    obtain x w2 where flow: "startAuthFlow env p (email account) ?w = (x, w2)"
      by (cases "startAuthFlow env p (email account) ?w")
    have inv2: "flow_invariant p w2"
      using flow_invariant_startAuthFlow [of p ?w env "email account"] inv1 flow by simp
    show ?thesis
    proof (cases x)
      case (Inl e)
      with gs None flow inv2 show ?thesis by simp
    next
      case (Inr u)
      with gs None flow inv2 Cons.IH [OF inv2] show ?thesis by simp
    qed
  qed
qed

lemma flow_invariant_start:
  "flow_invariant p w \<Longrightarrow> flow_invariant p (snd (start env p w))"
  using flow_invariant_start_accounts [OF flow_invariant_initialize, of p w env "getAccountInfo (snd (initialize w))"]
    flow_invariant_initialize [of p w]
  by (auto simp: start_def split: prod.splits sum.splits)


section \<open>The listener after an exchange\<close>




section \<open>The redirect URI and the listener port\<close>

lemma uri_port_REDIRECT_URI: "uri_port REDIRECT_URI = Some 4100"
  by code_simp

text \<open>
  Claim C9. Let the server be started with any listener port \<open>oauthPort\<close> and let it
  handle any sequence of tool calls and HTTP requests. Every authorization URL that
  \<open>getAuthorizationUrl\<close> then generates embeds the redirect URI
  \<open>http://localhost:4100/code\<close>, whose port is 4100; it is the port of the listeners, all
  of which are bound on \<open>oauthPort\<close>, exactly when \<open>oauthPort\<close> is 4100.
\<close>

theorem redirect_uri_ignores_oauth_port:
  assumes reach: "w = run tools oauthPort evs (snd (start env oauthPort (boot gauth accounts files)))"
    and gen: "fst (getAuthorizationUrl emailAddress state w) = Inr url"
  shows "redirect_uri url = REDIRECT_URI
       \<and> uri_port (redirect_uri url) = Some 4100
       \<and> ((uri_port (redirect_uri url) = Some oauthPort) = (oauthPort = 4100))
       \<and> list_all (\<lambda>u. redirect_uri u = REDIRECT_URI) (authUrls w)
       \<and> list_all (\<lambda>p. p = oauthPort) (listening w)"
proof -
  have inv: "flow_invariant oauthPort w"
    unfolding reach
    by (intro flow_invariant_run flow_invariant_start flow_invariant_boot)
  obtain c where c: "oauth2Client w = Some c"
    using gen by (cases "oauth2Client w") (simp_all add: getAuthorizationUrl_None)
  then have "url = auth_url c state emailAddress"
    using gen by (simp add: getAuthorizationUrl_Some)
  moreover have "redirectUri c = REDIRECT_URI"
    using inv c by (simp add: flow_invariant_def client_redirect_fixed_def)
  ultimately have "redirect_uri url = REDIRECT_URI"
    by (simp add: auth_url_fields)
  then show ?thesis
    using inv by (auto simp: uri_port_REDIRECT_URI flow_invariant_def)
qed

theorem redirect_uri_ignores_oauth_port_witness:
  "redirect_uri (auth_url example_client ''{}'' ''a@example.com'') = ''http://localhost:4100/code''
   \<and> uri_port (redirect_uri (auth_url example_client ''{}'' ''a@example.com'')) \<noteq> Some 5000
   \<and> listening (run example_tools 5000 []
        (snd (start example_env 5000
           (boot (GauthInstalled ''id'' ''secret'') (Some example_accounts) Map.empty)))) = [5000]"
proof -
  let ?b = "boot (GauthInstalled ''id'' ''secret'') (Some example_accounts) Map.empty"
  let ?w = "snd (start example_env 5000 ?b)"
  have client: "oauth2Client ?w = Some example_client" and lis: "listening ?w = [5000]"
    by (simp_all add: example_start)
  have reach: "?w = run example_tools 5000 [] ?w"
    by simp
  have gen: "fst (getAuthorizationUrl ''a@example.com'' ''{}'' ?w) =
      Inr (auth_url example_client ''{}'' ''a@example.com'')"
    by (simp only: getAuthorizationUrl_Some [OF client] fst_conv)
  show ?thesis
    using redirect_uri_ignores_oauth_port [OF reach gen] lis
    by (simp add: REDIRECT_URI_def uri_port_REDIRECT_URI [unfolded REDIRECT_URI_def])
qed

end
